theory Spec2Isabelle
  imports Complex_Main "HOL-Library.Log_Nat" "HOL-Library.Word" "HOL-Library.Sublist"
begin

section \<open>IEEE-754 binary64 arithmetic, as far as getVideoAspectRatio uses it\<close>

text \<open>
  Go's \<^verbatim>\<open>float64\<close> is IEEE-754 binary64 with round-to-nearest, ties-to-even. A value is
  a finite rational, an infinity or NaN. The sign of a zero is not represented: the only
  zero divisor the program can produce is \<^verbatim>\<open>float64(0)\<close>, which is +0, and the sign of a
  zero quotient changes neither the subtraction of a non-zero constant nor a comparison.
\<close>

datatype float64 = Fin rat | PInf | NInf | NaN

text \<open>For \<open>0 < x\<close>, the exponent \<open>e\<close> with \<open>2 powi e \<le> x < 2 powi (e + 1)\<close>.\<close>

definition ilog2 :: "rat \<Rightarrow> int" where
  "ilog2 x = (case quotient_of x of (p, q) \<Rightarrow>
     (let k = bitlen p - bitlen q in if 2 powi k \<le> x then k else k - 1))"

definition round_ties_even :: "rat \<Rightarrow> int" where
  "round_ties_even x = (let f = \<lfloor>x\<rfloor>; d = x - of_int f in
     if d < 1/2 then f else if 1/2 < d then f + 1 else if even f then f else f + 1)"

text \<open>
  Rounding a rational to binary64: 53 significant bits in the normal range (the unit in
  the last place of \<open>x\<close> is \<open>2 powi (e - 52)\<close>), the fixed unit \<open>2 powi (- 1074)\<close> below
  \<open>2 powi (- 1022)\<close>, and an infinity when the rounded magnitude reaches \<open>2 powi 1024\<close>.
\<close>

definition round64 :: "rat \<Rightarrow> float64" where
  "round64 x = (if x = 0 then Fin 0 else
     (let e = max (ilog2 \<bar>x\<bar>) (- 1022);
          u = 2 powi (e - 52);
          y = of_int (round_ties_even (\<bar>x\<bar> / u)) * u
      in if 2 powi 1024 \<le> y then (if 0 < x then PInf else NInf)
         else Fin (sgn x * y)))"

text \<open>The conversion \<^verbatim>\<open>float64(n)\<close> of an integer.\<close>

definition float64_of_int :: "int \<Rightarrow> float64" where
  "float64_of_int n = round64 (of_int n)"

fun fdiv :: "float64 \<Rightarrow> float64 \<Rightarrow> float64" where
  "fdiv NaN _ = NaN"
| "fdiv _ NaN = NaN"
| "fdiv (Fin a) (Fin b) =
     (if b = 0 then (if a = 0 then NaN else if 0 < a then PInf else NInf)
      else round64 (a / b))"
| "fdiv (Fin a) PInf = Fin 0"
| "fdiv (Fin a) NInf = Fin 0"
| "fdiv PInf (Fin b) = (if 0 \<le> b then PInf else NInf)"
| "fdiv NInf (Fin b) = (if 0 \<le> b then NInf else PInf)"
| "fdiv PInf PInf = NaN"
| "fdiv PInf NInf = NaN"
| "fdiv NInf PInf = NaN"
| "fdiv NInf NInf = NaN"

fun fsub :: "float64 \<Rightarrow> float64 \<Rightarrow> float64" where
  "fsub NaN _ = NaN"
| "fsub _ NaN = NaN"
| "fsub (Fin a) (Fin b) = round64 (a - b)"
| "fsub (Fin a) PInf = NInf"
| "fsub (Fin a) NInf = PInf"
| "fsub PInf (Fin b) = PInf"
| "fsub NInf (Fin b) = NInf"
| "fsub PInf PInf = NaN"
| "fsub NInf NInf = NaN"
| "fsub PInf NInf = PInf"
| "fsub NInf PInf = NInf"

text \<open>\<^verbatim>\<open>math.Abs\<close>.\<close>

fun fabs :: "float64 \<Rightarrow> float64" where
  "fabs (Fin a) = Fin \<bar>a\<bar>"
| "fabs PInf = PInf"
| "fabs NInf = PInf"
| "fabs NaN = NaN"

text \<open>The comparison \<^verbatim>\<open><\<close>: false whenever an operand is NaN.\<close>

fun flt :: "float64 \<Rightarrow> float64 \<Rightarrow> bool" where
  "flt (Fin a) (Fin b) = (a < b)"
| "flt (Fin a) PInf = True"
| "flt NInf (Fin b) = True"
| "flt NInf PInf = True"
| "flt _ _ = False"

section \<open>Data model\<close>

type_synonym byte = "8 word"

text \<open>A UUID, held as its canonical text (what \<^verbatim>\<open>videoID.String()\<close> prints).\<close>

type_synonym uuid = string

text \<open>
  The video record of the metadata store, with the fields the handlers read and write
  (\<^verbatim>\<open>video.UserID\<close>, \<^verbatim>\<open>video.ThumbnailURL\<close>, \<^verbatim>\<open>video.VideoURL\<close>; the URL fields are
  pointers, nil when unset).
\<close>

record video =
  ID :: uuid
  UserID :: uuid
  ThumbnailURL :: "string option"
  VideoURL :: "string option"

text \<open>The fields of \<^verbatim>\<open>apiConfig\<close> that the handlers use.\<close>

record apiConfig =
  jwtSecret :: string
  assetsRoot :: string
  port :: string
  s3Bucket :: string
  s3Region :: string
  s3CfDistribution :: string

record formFile =
  fileBytes :: "byte list"
  contentType :: string

text \<open>
  The HTTP request: the path value, the headers, the size of the body, and the multipart
  form the body decodes to (\<open>None\<close> when it does not decode).
\<close>

record request =
  pathVideoID :: string
  header :: "(string \<times> string) list"
  bodySize :: nat
  form :: "(string \<rightharpoonup> formFile) option"

record s3object =
  objBody :: "byte list"
  objContentType :: string

text \<open>
  The state outside the handler: the metadata store, the local file system and the
  object store (bucket and key to object).
\<close>

record world =
  db :: "uuid \<rightharpoonup> video"
  files :: "string \<rightharpoonup> byte list"
  s3 :: "string \<times> string \<rightharpoonup> s3object"

text \<open>
  The collaborators whose code is outside the repository: libraries, the operating
  system, the external processes and the outcome of each fallible call during one
  request. \<open>None\<close> (or \<open>False\<close>) is the call returning an error.
\<close>

record env =
  uuid_Parse :: "string \<Rightarrow> uuid option"
  GetBearerToken :: "(string \<times> string) list \<Rightarrow> string option"
  ValidateJWT :: "string \<Rightarrow> string \<Rightarrow> uuid option"
  ParseMediaType :: "string \<Rightarrow> string option"
  ExtensionsByType :: "string \<Rightarrow> string list option"
  filepath_Join :: "string \<Rightarrow> string \<Rightarrow> string"
  rand_Read :: "byte list option"
  os_Create_ok :: "string \<Rightarrow> bool"
  io_Copy_fails_after :: "nat option"
  TempDir :: string
  CreateTemp_random :: "string option"
  Seek_ok :: bool
  ffprobe :: "string \<Rightarrow> string option"
  json_Unmarshal :: "string \<Rightarrow> (int \<times> int) list option"
  ffmpeg :: "string list \<Rightarrow> byte list option"
  os_Open_ok :: "string \<Rightarrow> bool"
  PutObject_ok :: "string \<Rightarrow> string \<Rightarrow> bool"
  UpdateVideo_ok :: "video \<Rightarrow> bool"

datatype err = Panic | Err string

datatype body = ErrorBody string | VideoBody video | URLBody string | NoBody

text \<open>
  The calls a handler makes, in the order it makes them, and the phase of the request
  each belongs to.
\<close>

datatype event =
    CallParseUUID | CallGetBearerToken | CallValidateJWT
  | CallParseMultipartForm | CallFormFile
  | CallParseMediaType | CallExtensionsByType
  | CallGetVideo | CheckOwner
  | CallRandRead | CallCreate | CallCopy
  | CallCreateTemp | CallCopyToTemp | CallGetVideoAspectRatio | CallSeek
  | CallProcessVideoForFastStart | CallOpen | CallPutObject | CallUpdateVideo

datatype phase = Authenticate | Fetch | Ownership | Decode | Validate | Persist | Update

fun phase_of :: "event \<Rightarrow> phase option" where
  "phase_of CallGetBearerToken = Some Authenticate"
| "phase_of CallValidateJWT = Some Authenticate"
| "phase_of CallGetVideo = Some Fetch"
| "phase_of CheckOwner = Some Ownership"
| "phase_of CallParseMultipartForm = Some Decode"
| "phase_of CallFormFile = Some Decode"
| "phase_of CallParseMediaType = Some Validate"
| "phase_of CallExtensionsByType = Some Validate"
| "phase_of CallCreate = Some Persist"
| "phase_of CallCopy = Some Persist"
| "phase_of CallPutObject = Some Persist"
| "phase_of CallUpdateVideo = Some Update"
| "phase_of _ = None"

definition phases :: "event list \<Rightarrow> phase list" where
  "phases tr = remdups_adj (List.map_filter phase_of tr)"

record outcome =
  status :: nat
  respBody :: body
  after :: world
  trace :: "event list"

definition StatusOK :: nat where "StatusOK = 200"
definition StatusBadRequest :: nat where "StatusBadRequest = 400"
definition StatusUnauthorized :: nat where "StatusUnauthorized = 401"
definition StatusNotFound :: nat where "StatusNotFound = 404"
definition StatusInternalServerError :: nat where "StatusInternalServerError = 500"

definition respondWithError :: "nat \<Rightarrow> string \<Rightarrow> world \<Rightarrow> event list \<Rightarrow> outcome" where
  "respondWithError code msg w tr =
     \<lparr>status = code, respBody = ErrorBody msg, after = w, trace = tr\<rparr>"

definition respondWithJSON :: "nat \<Rightarrow> body \<Rightarrow> world \<Rightarrow> event list \<Rightarrow> outcome" where
  "respondWithJSON code payload w tr =
     \<lparr>status = code, respBody = payload, after = w, trace = tr\<rparr>"

text \<open>A panic that leaves the handler: no response is written (status 0).\<close>

definition panicked :: "world \<Rightarrow> event list \<Rightarrow> outcome" where
  "panicked w tr = \<lparr>status = 0, respBody = NoBody, after = w, trace = tr\<rparr>"

subsection \<open>The metadata store\<close>

text \<open>
  Modelled from the spec: the metadata store (package database, not among the source
  files) is a keyed lookup \<^verbatim>\<open>get(id) \<rightarrow> record | error\<close> that fails for an unknown
  identifier, and \<^verbatim>\<open>update(record) \<rightarrow> error\<close> that replaces the record on success.
\<close>

definition GetVideo :: "world \<Rightarrow> uuid \<Rightarrow> video option" where
  "GetVideo w videoID = db w videoID"

definition UpdateVideo :: "env \<Rightarrow> world \<Rightarrow> video \<Rightarrow> world option" where
  "UpdateVideo ev w v =
     (if UpdateVideo_ok ev v then Some (w\<lparr>db := (db w)(ID v \<mapsto> v)\<rparr>) else None)"

subsection \<open>File system and object store\<close>

definition os_Remove :: "string \<Rightarrow> world \<Rightarrow> world" where
  "os_Remove name w = w\<lparr>files := (files w)(name := None)\<rparr>"

definition write_file :: "string \<Rightarrow> byte list \<Rightarrow> world \<Rightarrow> world" where
  "write_file name bs w = w\<lparr>files := (files w)(name \<mapsto> bs)\<rparr>"

text \<open>\<^verbatim>\<open>io.Copy(dst, src)\<close> into a file: all bytes, or an error after some of them.\<close>

definition io_Copy :: "env \<Rightarrow> string \<Rightarrow> byte list \<Rightarrow> world \<Rightarrow> world \<times> bool" where
  "io_Copy ev name bs w =
     (case io_Copy_fails_after ev of
        None \<Rightarrow> (write_file name bs w, True)
      | Some n \<Rightarrow> (write_file name (take n bs) w, False))"

text \<open>
  \<^verbatim>\<open>os.CreateTemp("", "tubely-upload-*.mp4")\<close>: a new file in the default temporary
  directory, the \<^verbatim>\<open>*\<close> of the pattern replaced by a random string.
\<close>

definition CreateTemp_name :: "env \<Rightarrow> string option" where
  "CreateTemp_name ev =
     (case CreateTemp_random ev of
        None \<Rightarrow> None
      | Some rnd \<Rightarrow> Some (TempDir ev @ ''/tubely-upload-'' @ rnd @ ''.mp4''))"

definition PutObject :: "env \<Rightarrow> string \<Rightarrow> string \<Rightarrow> byte list \<Rightarrow> string \<Rightarrow> world \<Rightarrow> world option" where
  "PutObject ev bucket key bs ctype w =
     (if PutObject_ok ev bucket key
      then Some (w\<lparr>s3 := (s3 w)((bucket, key) \<mapsto> \<lparr>objBody = bs, objContentType = ctype\<rparr>)\<rparr>)
      else None)"

subsection \<open>base64.RawURLEncoding.EncodeToString\<close>

definition encodeURL :: string where
  "encodeURL = ''ABCDEFGHIJKLMNOPQRSTUVWXYZabcdefghijklmnopqrstuvwxyz0123456789-_''"

fun EncodeToString :: "byte list \<Rightarrow> string" where
  "EncodeToString (a # b # c # rest) =
     (let v = unat a * 65536 + unat b * 256 + unat c in
        [encodeURL ! (v div 262144 mod 64), encodeURL ! (v div 4096 mod 64),
         encodeURL ! (v div 64 mod 64), encodeURL ! (v mod 64)]) @ EncodeToString rest"
| "EncodeToString [a, b] =
     (let v = unat a * 65536 + unat b * 256 in
        [encodeURL ! (v div 262144 mod 64), encodeURL ! (v div 4096 mod 64),
         encodeURL ! (v div 64 mod 64)])"
| "EncodeToString [a] =
     (let v = unat a * 65536 in
        [encodeURL ! (v div 262144 mod 64), encodeURL ! (v div 4096 mod 64)])"
| "EncodeToString [] = []"

section \<open>getVideoAspectRatio and processVideoForFastStart\<close>

text \<open>
  The stream list is what \<^verbatim>\<open>json.Unmarshal\<close> makes of ffprobe's output: one
  (width, height) pair per stream, a missing field being 0.
\<close>

definition getVideoAspectRatio :: "env \<Rightarrow> string \<Rightarrow> err + string" where
  "getVideoAspectRatio ev filePath =
     (case ffprobe ev filePath of
        None \<Rightarrow> Inl (Err ''ffprobe'')
      | Some out \<Rightarrow>
     (case json_Unmarshal ev out of
        None \<Rightarrow> Inl (Err ''unmarshal'')
      | Some streams \<Rightarrow>
     (case streams of
        [] \<Rightarrow> Inl (Err ''no streams found in ffprobe output'')
      | (width, height) # _ \<Rightarrow>
          (let ratio = fdiv (float64_of_int width) (float64_of_int height) in
             if flt (fabs (fsub ratio (round64 (16 / 9)))) (round64 (1 / 10)) then Inr ''16:9''
             else if flt (fabs (fsub ratio (round64 (9 / 16)))) (round64 (1 / 10)) then Inr ''9:16''
             else Inr ''other''))))"

text \<open>The \<^verbatim>\<open>switch aspectRatio\<close> of the video handler.\<close>

definition aspectString :: "string \<Rightarrow> string" where
  "aspectString aspectRatio =
     (if aspectRatio = ''16:9'' then ''landscape''
      else if aspectRatio = ''9:16'' then ''portrait''
      else ''other'')"

text \<open>
  The slice \<^verbatim>\<open>filePath[:len(filePath)-len(".mp4")]\<close> panics when the path has fewer than
  four bytes. \<open>ffmpeg\<close> gives the bytes the process writes to the output file, or \<open>None\<close>
  when the process fails.
\<close>

definition processVideoForFastStart :: "env \<Rightarrow> string \<Rightarrow> world \<Rightarrow> (err + string) \<times> world" where
  "processVideoForFastStart ev filePath w =
     (if length filePath < length ''.mp4'' then (Inl Panic, w)
      else
        (let outputFilePath = take (length filePath - length ''.mp4'') filePath @ ''-faststart.mp4'' in
           case ffmpeg ev [''-i'', filePath, ''-c'', ''copy'', ''-movflags'', ''faststart'',
                           ''-f'', ''mp4'', outputFilePath] of
             None \<Rightarrow> (Inl (Err ''ffmpeg''), w)
           | Some bs \<Rightarrow> (Inr outputFilePath, write_file outputFilePath bs w)))"

text \<open>\<^verbatim>\<open>os.Open\<close>: the bytes of an existing file.\<close>

definition os_Open :: "env \<Rightarrow> string \<Rightarrow> world \<Rightarrow> byte list option" where
  "os_Open ev name w = (if os_Open_ok ev name then files w name else None)"

section \<open>The thumbnail upload handler\<close>

definition maxMemory :: nat where
  "maxMemory = 10 * 2 ^ 20"

text \<open>
  \<^verbatim>\<open>handlerUploadThumbnail\<close>, one branch per early return. The deferred
  \<^verbatim>\<open>file.Close()\<close> and \<^verbatim>\<open>dst.Close()\<close> leave the state as it is.
\<close>

definition handlerUploadThumbnail :: "apiConfig \<Rightarrow> env \<Rightarrow> request \<Rightarrow> world \<Rightarrow> outcome" where
  "handlerUploadThumbnail cfg ev r w =
    (let tr1 = [CallParseUUID] in
     case uuid_Parse ev (pathVideoID r) of
       None \<Rightarrow> respondWithError StatusBadRequest ''Invalid ID'' w tr1
     | Some videoID \<Rightarrow>
    (let tr2 = tr1 @ [CallGetBearerToken] in
     case GetBearerToken ev (header r) of
       None \<Rightarrow> respondWithError StatusUnauthorized ''Couldn't find JWT'' w tr2
     | Some token \<Rightarrow>
    (let tr3 = tr2 @ [CallValidateJWT] in
     case ValidateJWT ev token (jwtSecret cfg) of
       None \<Rightarrow> respondWithError StatusUnauthorized ''Couldn't validate JWT'' w tr3
     | Some userID \<Rightarrow>
    (let tr4 = tr3 @ [CallParseMultipartForm] in
     case form r of
       None \<Rightarrow> respondWithError StatusBadRequest ''Couldn't parse multipart form'' w tr4
     | Some fm \<Rightarrow>
    (let tr5 = tr4 @ [CallFormFile] in
     case fm ''thumbnail'' of
       None \<Rightarrow> respondWithError StatusBadRequest ''Couldn't get thumbnail file'' w tr5
     | Some file \<Rightarrow>
    (let mediaType = contentType file;
         tr6 = tr5 @ [CallExtensionsByType] in
     case ExtensionsByType ev mediaType of
       None \<Rightarrow> respondWithError StatusBadRequest ''Unsupported media type'' w tr6
     | Some [] \<Rightarrow> respondWithError StatusBadRequest ''Unsupported media type'' w tr6
     | Some (ext # _) \<Rightarrow>
    (if ext \<noteq> ''.jpg'' \<and> ext \<noteq> ''.png''
     then respondWithError StatusBadRequest ''Unsupported file type'' w tr6
     else
    (let tr7 = tr6 @ [CallGetVideo] in
     case GetVideo w videoID of
       None \<Rightarrow> respondWithError StatusNotFound ''Couldn't get video metadata'' w tr7
     | Some video \<Rightarrow>
    (let tr8 = tr7 @ [CheckOwner] in
     if UserID video \<noteq> userID
     then respondWithError StatusUnauthorized
            ''You don't have permission to upload a thumbnail for this video'' w tr8
     else
    (let tr9 = tr8 @ [CallRandRead] in
     case rand_Read ev of
       None \<Rightarrow> respondWithError StatusInternalServerError
                 ''Couldn't generate random bytes for thumbnail filename'' w tr9
     | Some key \<Rightarrow>
    (let randomName = EncodeToString key;
         assetPath = filepath_Join ev (assetsRoot cfg) (randomName @ ext);
         tr10 = tr9 @ [CallCreate] in
     if \<not> os_Create_ok ev assetPath
     then respondWithError StatusInternalServerError ''Couldn't create thumbnail file'' w tr10
     else
    (let w1 = write_file assetPath [] w;
         tr11 = tr10 @ [CallCopy] in
     case io_Copy ev assetPath (fileBytes file) w1 of
       (w2, False) \<Rightarrow>
         respondWithError StatusInternalServerError ''Couldn't write thumbnail file'' w2 tr11
     | (w2, True) \<Rightarrow>
    (let thumbnailURL = ''http://localhost:'' @ port cfg @ ''/assets/'' @ randomName @ ext;
         video' = video\<lparr>ThumbnailURL := Some thumbnailURL\<rparr>;
         tr12 = tr11 @ [CallUpdateVideo] in
     case UpdateVideo ev w2 video' of
       None \<Rightarrow> respondWithError StatusInternalServerError
                 ''Couldn't update video metadata with thumbnail URL'' w2 tr12
     | Some w3 \<Rightarrow> respondWithJSON StatusOK (VideoBody video') w3 tr12)))))))))))))"

section \<open>The video upload handlers\<close>

definition maxUploadSize :: nat where
  "maxUploadSize = 2 ^ 30"

text \<open>
  \<^verbatim>\<open>r.FormFile("video")\<close> on the body wrapped by \<^verbatim>\<open>http.MaxBytesReader\<close>: reading a body
  of more than \<open>maxUploadSize\<close> bytes fails, and so does the decoding of the form.
\<close>

definition FormFile_limited :: "request \<Rightarrow> string \<Rightarrow> formFile option" where
  "FormFile_limited r name =
     (if maxUploadSize < bodySize r then None
      else case form r of None \<Rightarrow> None | Some fm \<Rightarrow> fm name)"

text \<open>
  The steps of \<^verbatim>\<open>handlerUploadVideo\<close> that both source files share, up to the reset of
  the file pointer: they end in an early response, or in the temporary file's name, the
  state, the record, the media type, the aspect string and the uploaded bytes.
\<close>

datatype prepared =
  Responded outcome
  | Ready uuid video string string string "byte list" world "event list"

definition uploadVideo_buffer ::
  "env \<Rightarrow> uuid \<Rightarrow> video \<Rightarrow> string \<Rightarrow> formFile \<Rightarrow> string \<Rightarrow> world \<Rightarrow> event list \<Rightarrow> prepared" where
  "uploadVideo_buffer ev videoID video mediaType file tempName w tr =
    (let tr1 = tr @ [CallCopyToTemp] in
     case io_Copy ev tempName (fileBytes file) w of
       (w1, False) \<Rightarrow> Responded (respondWithError StatusInternalServerError
                        ''Couldn't copy uploaded file to temp file'' w1 tr1)
     | (w1, True) \<Rightarrow>
    (let tr2 = tr1 @ [CallGetVideoAspectRatio] in
     case getVideoAspectRatio ev tempName of
       Inl _ \<Rightarrow> Responded (respondWithError StatusInternalServerError
                  ''Couldn't get video aspect ratio'' w1 tr2)
     | Inr aspectRatio \<Rightarrow>
    (let tr3 = tr2 @ [CallSeek] in
     if \<not> Seek_ok ev
     then Responded (respondWithError StatusInternalServerError
            ''Couldn't reset file pointer'' w1 tr3)
     else Ready videoID video mediaType (aspectString aspectRatio) tempName
            (fileBytes file) w1 tr3)))"

text \<open>
  From the start of the handler to \<^verbatim>\<open>os.CreateTemp\<close>; \<open>rest\<close> is the part of the handler
  that runs while the temporary file exists, and the deferred
  \<^verbatim>\<open>os.Remove(tempFile.Name())\<close> runs when it returns.
\<close>

definition uploadVideo_prefix ::
  "apiConfig \<Rightarrow> env \<Rightarrow> request \<Rightarrow> world \<Rightarrow> (prepared \<Rightarrow> outcome) \<Rightarrow> outcome" where
  "uploadVideo_prefix cfg ev r w rest =
    (let tr1 = [CallParseUUID] in
     case uuid_Parse ev (pathVideoID r) of
       None \<Rightarrow> respondWithError StatusBadRequest ''Invalid ID'' w tr1
     | Some videoID \<Rightarrow>
    (let tr2 = tr1 @ [CallGetBearerToken] in
     case GetBearerToken ev (header r) of
       None \<Rightarrow> respondWithError StatusUnauthorized ''Couldn't find JWT'' w tr2
     | Some token \<Rightarrow>
    (let tr3 = tr2 @ [CallValidateJWT] in
     case ValidateJWT ev token (jwtSecret cfg) of
       None \<Rightarrow> respondWithError StatusUnauthorized ''Couldn't validate JWT'' w tr3
     | Some userID \<Rightarrow>
    (let tr4 = tr3 @ [CallGetVideo] in
     case GetVideo w videoID of
       None \<Rightarrow> respondWithError StatusInternalServerError ''Couldn't get video metadata'' w tr4
     | Some video \<Rightarrow>
    (let tr5 = tr4 @ [CheckOwner] in
     if UserID video \<noteq> userID
     then respondWithError StatusUnauthorized
            ''You don't have permission to upload a video for this video ID'' w tr5
     else
    (let tr6 = tr5 @ [CallFormFile] in
     case FormFile_limited r ''video'' of
       None \<Rightarrow> respondWithError StatusBadRequest ''Couldn't get video file from form data'' w tr6
     | Some file \<Rightarrow>
    (let tr7 = tr6 @ [CallParseMediaType] in
     case ParseMediaType ev (contentType file) of
       None \<Rightarrow> respondWithError StatusBadRequest ''Couldn't parse media type'' w tr7
     | Some mediaType \<Rightarrow>
    (if mediaType \<noteq> ''video/mp4''
     then respondWithError StatusBadRequest ''Unsupported media type'' w tr7
     else
    (let tr8 = tr7 @ [CallCreateTemp] in
     case CreateTemp_name ev of
       None \<Rightarrow> respondWithError StatusInternalServerError ''Couldn't create temp file'' w tr8
     | Some tempName \<Rightarrow>
    (let w1 = write_file tempName [] w;
         out = rest (uploadVideo_buffer ev videoID video mediaType file tempName w1 tr8)
     in out\<lparr>after := os_Remove tempName (after out)\<rparr>))))))))))"

text \<open>
  \<^verbatim>\<open>src/handler_upload_video.go\<close>: the fast-start rewrite, the key made of the aspect
  string and the video identifier, the URL on the CDN host. The inner part runs while the
  processed file exists; the deferred \<^verbatim>\<open>os.Remove(processedFilePath)\<close> follows it.
\<close>

definition uploadVideo_store ::
  "apiConfig \<Rightarrow> env \<Rightarrow> uuid \<Rightarrow> video \<Rightarrow> string \<Rightarrow> string \<Rightarrow> string
     \<Rightarrow> world \<Rightarrow> event list \<Rightarrow> outcome" where
  "uploadVideo_store cfg ev videoID video mediaType aspect processedFilePath w tr =
    (let s3Key = aspect @ ''/'' @ videoID @ ''.mp4'';
         videoURL = ''https://'' @ s3CfDistribution cfg @ ''/'' @ s3Key;
         tr1 = tr @ [CallOpen] in
     case os_Open ev processedFilePath w of
       None \<Rightarrow> respondWithError StatusInternalServerError
                 ''Couldn't open processed video file'' w tr1
     | Some processedFile \<Rightarrow>
    (let tr2 = tr1 @ [CallPutObject] in
     case PutObject ev (s3Bucket cfg) s3Key processedFile mediaType w of
       None \<Rightarrow> respondWithError StatusInternalServerError ''Couldn't upload video to S3'' w tr2
     | Some w1 \<Rightarrow>
    (let video' = video\<lparr>VideoURL := Some videoURL\<rparr>;
         tr3 = tr2 @ [CallUpdateVideo] in
     case UpdateVideo ev w1 video' of
       None \<Rightarrow> respondWithError StatusInternalServerError
                 ''Couldn't update video metadata with video URL'' w1 tr3
     | Some w2 \<Rightarrow> respondWithJSON StatusOK (VideoBody video') w2 tr3)))"

definition uploadVideo_rest :: "apiConfig \<Rightarrow> env \<Rightarrow> prepared \<Rightarrow> outcome" where
  "uploadVideo_rest cfg ev p =
    (case p of
       Responded out \<Rightarrow> out
     | Ready videoID video mediaType aspect tempName uploaded w tr \<Rightarrow>
    (let tr1 = tr @ [CallProcessVideoForFastStart] in
     case processVideoForFastStart ev tempName w of
       (Inl Panic, w1) \<Rightarrow> panicked w1 tr1
     | (Inl (Err _), w1) \<Rightarrow> respondWithError StatusInternalServerError
                             ''Couldn't process video for fast start'' w1 tr1
     | (Inr processedFilePath, w1) \<Rightarrow>
    (let out = uploadVideo_store cfg ev videoID video mediaType aspect processedFilePath w1 tr1
     in out\<lparr>after := os_Remove processedFilePath (after out)\<rparr>)))"

definition handlerUploadVideo :: "apiConfig \<Rightarrow> env \<Rightarrow> request \<Rightarrow> world \<Rightarrow> outcome" where
  "handlerUploadVideo cfg ev r w = uploadVideo_prefix cfg ev r w (uploadVideo_rest cfg ev)"

text \<open>
  \<^verbatim>\<open>src/unnamed/part_001\<close>: no rewrite, a random name in the key, the URL on the bucket's
  host, the temporary file as the body. The error of \<^verbatim>\<open>PutObject\<close> is assigned and
  overwritten by the next assignment before anything reads it.
\<close>

definition uploadVideo_rest_part_001 :: "apiConfig \<Rightarrow> env \<Rightarrow> prepared \<Rightarrow> outcome" where
  "uploadVideo_rest_part_001 cfg ev p =
    (case p of
       Responded out \<Rightarrow> out
     | Ready videoID video mediaType aspect tempName uploaded w tr \<Rightarrow>
    (let tr1 = tr @ [CallRandRead] in
     case rand_Read ev of
       None \<Rightarrow> respondWithError StatusInternalServerError
                 ''Couldn't generate random bytes for thumbnail filename'' w tr1
     | Some key \<Rightarrow>
    (let randomName = EncodeToString key;
         s3Key = aspect @ ''/videos/'' @ randomName @ ''.mp4'';
         tr2 = tr1 @ [CallPutObject];
         w1 = (case PutObject ev (s3Bucket cfg) s3Key uploaded mediaType w of
                 None \<Rightarrow> w | Some w' \<Rightarrow> w');
         videoURL = ''https://'' @ s3Bucket cfg @ ''.s3.'' @ s3Region cfg @ ''.amazonaws.com/'' @ s3Key;
         video' = video\<lparr>VideoURL := Some videoURL\<rparr>;
         tr3 = tr2 @ [CallUpdateVideo] in
     case UpdateVideo ev w1 video' of
       None \<Rightarrow> respondWithError StatusInternalServerError
                 ''Couldn't update video metadata with video URL'' w1 tr3
     | Some w2 \<Rightarrow> respondWithJSON StatusOK (URLBody videoURL) w2 tr3)))"

definition handlerUploadVideo_part_001 :: "apiConfig \<Rightarrow> env \<Rightarrow> request \<Rightarrow> world \<Rightarrow> outcome" where
  "handlerUploadVideo_part_001 cfg ev r w =
     uploadVideo_prefix cfg ev r w (uploadVideo_rest_part_001 cfg ev)"

section \<open>Concrete inputs\<close>

text \<open>
  A configuration, a store with one video owned by \<open>alice\<close>, and collaborators under
  which every call succeeds. \<open>mime_builtin\<close> is the table Go's \<^verbatim>\<open>mime\<close> package starts
  from (\<^verbatim>\<open>builtinTypesLower\<close>: both \<^verbatim>\<open>.jpeg\<close> and \<^verbatim>\<open>.jpg\<close> map to \<^verbatim>\<open>image/jpeg\<close>), read
  the way \<^verbatim>\<open>mime.ExtensionsByType\<close> reads it: the extensions of a type in sorted order.
\<close>

definition alice :: uuid where
  "alice = ''11111111-1111-1111-1111-111111111111''"

definition bob :: uuid where
  "bob = ''22222222-2222-2222-2222-222222222222''"

definition vid :: uuid where
  "vid = ''aaaaaaaa-aaaa-aaaa-aaaa-aaaaaaaaaaaa''"

definition mime_builtin :: "string \<Rightarrow> string list option" where
  "mime_builtin t =
     (if t = ''image/jpeg'' then Some [''.jpeg'', ''.jpg'']
      else if t = ''image/png'' then Some [''.png'']
      else if t = ''image/gif'' then Some [''.gif'']
      else Some [])"

definition sample_video :: video where
  "sample_video = \<lparr>ID = vid, UserID = alice, ThumbnailURL = None, VideoURL = None\<rparr>"

definition sample_world :: world where
  "sample_world = \<lparr>db = [vid \<mapsto> sample_video], files = Map.empty, s3 = Map.empty\<rparr>"

definition empty_world :: world where
  "empty_world = \<lparr>db = Map.empty, files = Map.empty, s3 = Map.empty\<rparr>"

definition sample_cfg :: apiConfig where
  "sample_cfg = \<lparr>jwtSecret = ''secret'', assetsRoot = ''assets'', port = ''8091'',
     s3Bucket = ''tubely'', s3Region = ''us-east-2'', s3CfDistribution = ''cdn.example.com''\<rparr>"

definition sample_key :: "byte list" where
  "sample_key = [0, 0, 0, 0, 0, 0, 0, 0, 0, 0, 0, 0, 0, 0, 0, 0,
                 0, 0, 0, 0, 0, 0, 0, 0, 0, 0, 0, 0, 0, 0, 0, 0]"

definition other_key :: "byte list" where
  "other_key = [0, 0, 0, 0, 0, 0, 0, 0, 0, 0, 0, 0, 0, 0, 0, 0,
                0, 0, 0, 0, 0, 0, 0, 0, 0, 0, 0, 0, 0, 0, 0, 1]"

definition sample_env :: env where
  "sample_env = \<lparr>
     uuid_Parse = (\<lambda>s. if length s = 36 then Some s else None),
     GetBearerToken = (\<lambda>h. case map_of h ''Authorization'' of
                          None \<Rightarrow> None
                        | Some v \<Rightarrow> if take 7 v = ''Bearer '' then Some (drop 7 v) else None),
     ValidateJWT = (\<lambda>t s. if s \<noteq> ''secret'' then None
                           else if t = ''alice-token'' then Some alice
                           else if t = ''bob-token'' then Some bob else None),
     ParseMediaType = Some,
     ExtensionsByType = mime_builtin,
     filepath_Join = (\<lambda>a b. a @ ''/'' @ b),
     rand_Read = Some sample_key,
     os_Create_ok = (\<lambda>_. True),
     io_Copy_fails_after = None,
     TempDir = ''/tmp'',
     CreateTemp_random = Some ''1234567'',
     Seek_ok = True,
     ffprobe = (\<lambda>_. Some ''{}''),
     json_Unmarshal = (\<lambda>_. Some [(1920, 1080)]),
     ffmpeg = (\<lambda>_. Some [1, 2, 3]),
     os_Open_ok = (\<lambda>_. True),
     PutObject_ok = (\<lambda>_ _. True),
     UpdateVideo_ok = (\<lambda>_. True)\<rparr>"

definition video_request :: "string \<Rightarrow> request" where
  "video_request token =
     \<lparr>pathVideoID = vid, header = [(''Authorization'', ''Bearer '' @ token)], bodySize = 3,
      form = Some [''video'' \<mapsto> \<lparr>fileBytes = [7, 8, 9], contentType = ''video/mp4''\<rparr>]\<rparr>"

definition thumbnail_request :: "string \<Rightarrow> string \<Rightarrow> request" where
  "thumbnail_request token ctype =
     \<lparr>pathVideoID = vid, header = [(''Authorization'', ''Bearer '' @ token)], bodySize = 3,
      form = Some [''thumbnail'' \<mapsto> \<lparr>fileBytes = [4, 5, 6], contentType = ctype\<rparr>]\<rparr>"

section \<open>Predicates and orders the claims are stated with\<close>

text \<open>
  The checks of \<^verbatim>\<open>handlerUploadThumbnail\<close> on the form (lines 44 to 73 of
  \<^verbatim>\<open>src/unnamed/part_000\<close>): the form decodes, it has a \<^verbatim>\<open>thumbnail\<close> field, and the first
  extension that \<^verbatim>\<open>mime.ExtensionsByType\<close> gives for the declared content type is \<^verbatim>\<open>.jpg\<close>
  or \<^verbatim>\<open>.png\<close>.
\<close>

definition thumbnail_checks_pass :: "env \<Rightarrow> request \<Rightarrow> bool" where
  "thumbnail_checks_pass ev r =
     (case form r of
        None \<Rightarrow> False
      | Some fm \<Rightarrow>
     (case fm ''thumbnail'' of
        None \<Rightarrow> False
      | Some file \<Rightarrow>
     (case ExtensionsByType ev (contentType file) of
        None \<Rightarrow> False
      | Some [] \<Rightarrow> False
      | Some (ext # _) \<Rightarrow> ext = ''.jpg'' \<or> ext = ''.png'')))"

text \<open>
  The order of the phases in the spec's control flow, and the order in which the
  thumbnail handler goes through them.
\<close>

definition spec_order :: "phase list" where
  "spec_order = [Authenticate, Fetch, Ownership, Decode, Validate, Persist, Update]"

definition thumbnail_order :: "phase list" where
  "thumbnail_order = [Authenticate, Decode, Validate, Fetch, Ownership, Persist, Update]"

section \<open>Facts about the arithmetic and the collaborators\<close>

lemma round64_0: "round64 0 = Fin 0"
  by (simp add: round64_def)

lemma round64_16_9: "round64 (16 / 9) = Fin (2001599834386887 / 1125899906842624)"
  by code_simp

lemma round64_9_16: "round64 (9 / 16) = Fin (9 / 16)"
  by code_simp

lemma round64_1_10: "round64 (1 / 10) = Fin (3602879701896397 / 36028797018963968)"
  by code_simp

lemma fdiv_zero_cases: "fdiv x (Fin 0) = PInf \<or> fdiv x (Fin 0) = NInf \<or> fdiv x (Fin 0) = NaN"
  by (cases x) auto

lemma flt_special:
  assumes "x = PInf \<or> x = NInf \<or> x = NaN"
  shows "\<not> flt (fabs (fsub x (Fin c))) (Fin t)"
  using assms by auto

section \<open>Claims about the aspect probe and the fast-start rewrite\<close>

text \<open>
  C9: when the stream list is non-empty and the first stream has height 0,
  \<^verbatim>\<open>getVideoAspectRatio\<close> divides all the same: the ratio is an infinity or NaN, both
  tolerance comparisons are false, and the function returns "other" with no error.
\<close>

theorem getVideoAspectRatio_zero_height:
  assumes "ffprobe ev filePath = Some out"
    and "json_Unmarshal ev out = Some ((width, 0) # rest)"
  shows "getVideoAspectRatio ev filePath = Inr ''other''
    \<and> fdiv (float64_of_int width) (float64_of_int 0) \<in> {PInf, NInf, NaN}
    \<and> \<not> flt (fabs (fsub (fdiv (float64_of_int width) (float64_of_int 0)) (round64 (16 / 9))))
            (round64 (1 / 10))
    \<and> \<not> flt (fabs (fsub (fdiv (float64_of_int width) (float64_of_int 0)) (round64 (9 / 16))))
            (round64 (1 / 10))"
proof -
  let ?ratio = "fdiv (float64_of_int width) (float64_of_int 0)"
  have z: "float64_of_int 0 = Fin 0"
    by (simp add: float64_of_int_def round64_0)
  have special: "?ratio = PInf \<or> ?ratio = NInf \<or> ?ratio = NaN"
    unfolding z by (rule fdiv_zero_cases)
  have l: "\<not> flt (fabs (fsub ?ratio (round64 (16 / 9)))) (round64 (1 / 10))"
    unfolding round64_16_9 round64_1_10 using special by (rule flt_special)
  have p: "\<not> flt (fabs (fsub ?ratio (round64 (9 / 16)))) (round64 (1 / 10))"
    unfolding round64_9_16 round64_1_10 using special by (rule flt_special)
  have "getVideoAspectRatio ev filePath = Inr ''other''"
    using assms l p by (simp add: getVideoAspectRatio_def)
  with special l p show ?thesis by auto
qed

text \<open>The theorem at width 1920 and height 0: the ratio is the positive infinity.\<close>

theorem getVideoAspectRatio_zero_height_witness:
  "getVideoAspectRatio (sample_env\<lparr>json_Unmarshal := \<lambda>_. Some [(1920, 0)]\<rparr>) ''/tmp/a.mp4'' = Inr ''other''
   \<and> fdiv (float64_of_int 1920) (float64_of_int 0) = PInf"
proof -
  let ?ev = "sample_env\<lparr>json_Unmarshal := \<lambda>_. Some [(1920, 0)]\<rparr>"
  have a: "ffprobe ?ev ''/tmp/a.mp4'' = Some ''{}''" by (simp add: sample_env_def)
  have b: "json_Unmarshal ?ev ''{}'' = Some ((1920, 0) # [])" by simp
  have c: "fdiv (float64_of_int 1920) (float64_of_int 0) = PInf" by code_simp
  from getVideoAspectRatio_zero_height [OF a b] c show ?thesis by simp
qed

text \<open>
  C10: for a path of at least four bytes, \<^verbatim>\<open>processVideoForFastStart\<close> takes as output
  path the input path without its last four bytes, followed by \<^verbatim>\<open>-faststart.mp4\<close>,
  whatever those four bytes are; for a shorter path the slice expression panics.
\<close>

theorem processVideoForFastStart_output_path:
  "(4 \<le> length filePath \<longrightarrow>
      (\<exists>stem tail. filePath = stem @ tail \<and> length tail = 4 \<and>
         processVideoForFastStart ev filePath w =
           (case ffmpeg ev [''-i'', filePath, ''-c'', ''copy'', ''-movflags'', ''faststart'',
                            ''-f'', ''mp4'', stem @ ''-faststart.mp4''] of
              None \<Rightarrow> (Inl (Err ''ffmpeg''), w)
            | Some bs \<Rightarrow> (Inr (stem @ ''-faststart.mp4''),
                           write_file (stem @ ''-faststart.mp4'') bs w))))
   \<and> (length filePath < 4 \<longrightarrow> processVideoForFastStart ev filePath w = (Inl Panic, w))"
proof (intro conjI impI)
  assume len: "4 \<le> length filePath"
  have four: "length ''.mp4'' = 4" by simp
  let ?stem = "take (length filePath - 4) filePath"
  let ?tail = "drop (length filePath - 4) filePath"
  have "filePath = ?stem @ ?tail" by simp
  moreover have "length ?tail = 4" using len by simp
  moreover have "processVideoForFastStart ev filePath w =
           (case ffmpeg ev [''-i'', filePath, ''-c'', ''copy'', ''-movflags'', ''faststart'',
                            ''-f'', ''mp4'', ?stem @ ''-faststart.mp4''] of
              None \<Rightarrow> (Inl (Err ''ffmpeg''), w)
            | Some bs \<Rightarrow> (Inr (?stem @ ''-faststart.mp4''),
                           write_file (?stem @ ''-faststart.mp4'') bs w))"
    using len unfolding processVideoForFastStart_def four Let_def by simp
  ultimately show "\<exists>stem tail. filePath = stem @ tail \<and> length tail = 4 \<and>
         processVideoForFastStart ev filePath w =
           (case ffmpeg ev [''-i'', filePath, ''-c'', ''copy'', ''-movflags'', ''faststart'',
                            ''-f'', ''mp4'', stem @ ''-faststart.mp4''] of
              None \<Rightarrow> (Inl (Err ''ffmpeg''), w)
            | Some bs \<Rightarrow> (Inr (stem @ ''-faststart.mp4''),
                           write_file (stem @ ''-faststart.mp4'') bs w))"
    by blast
next
  assume "length filePath < 4"
  then show "processVideoForFastStart ev filePath w = (Inl Panic, w)"
    by (simp add: processVideoForFastStart_def)
qed

text \<open>The theorem at a path that does not end in \<^verbatim>\<open>.mp4\<close>, and at a path of three bytes.\<close>

theorem processVideoForFastStart_output_path_witness:
  "processVideoForFastStart sample_env ''clip.mov'' empty_world =
     (Inr ''clip-faststart.mp4'', write_file ''clip-faststart.mp4'' [1, 2, 3] empty_world)
   \<and> processVideoForFastStart sample_env ''abc'' empty_world = (Inl Panic, empty_world)"
proof -
  have "\<And>stem tail. ''clip.mov'' = stem @ tail \<Longrightarrow> length tail = 4 \<Longrightarrow> stem = ''clip''"
    by (auto simp: append_eq_Cons_conv Cons_eq_append_conv length_Suc_conv numeral_eq_Suc)
  with processVideoForFastStart_output_path [of "''clip.mov''" sample_env empty_world]
    processVideoForFastStart_output_path [of "''abc''" sample_env empty_world]
  show ?thesis
    by (auto simp: sample_env_def)
qed


section \<open>Claims about the handlers\<close>

lemmas status_defs = StatusOK_def StatusBadRequest_def StatusUnauthorized_def
  StatusNotFound_def StatusInternalServerError_def

lemmas respond_defs = respondWithError_def respondWithJSON_def panicked_def

lemmas store_defs = GetVideo_def UpdateVideo_def os_Remove_def write_file_def io_Copy_def
  CreateTemp_name_def PutObject_def os_Open_def FormFile_limited_def maxUploadSize_def

lemmas video_defs = handlerUploadVideo_def handlerUploadVideo_part_001_def
  uploadVideo_prefix_def uploadVideo_rest_def uploadVideo_rest_part_001_def
  uploadVideo_buffer_def uploadVideo_store_def processVideoForFastStart_def

lemmas sample_defs = sample_env_def sample_cfg_def sample_world_def empty_world_def
  sample_video_def video_request_def thumbnail_request_def vid_def alice_def bob_def
  mime_builtin_def

lemma sample_aspect: "getVideoAspectRatio (sample_env\<lparr>PutObject_ok := f\<rparr>) p = Inr ''16:9''"
proof -
  have "fdiv (float64_of_int 1920) (float64_of_int 1080) = Fin (2001599834386887 / 1125899906842624)"
    by code_simp
  then show ?thesis
    by (simp add: getVideoAspectRatio_def sample_env_def round64_16_9 round64_1_10 round64_0)
qed

lemma sample_name: "EncodeToString sample_key = ''AAAAAAAAAAAAAAAAAAAAAAAAAAAAAAAAAAAAAAAAAAA''"
  by (simp add: sample_key_def encodeURL_def)

text \<open>
  C1: a video upload whose \<^verbatim>\<open>PutObject\<close> fails is to end at once with status 500 and leave
  the record as it was. In \<^verbatim>\<open>src/unnamed/part_001\<close> the error is never read: with every
  other call succeeding and \<^verbatim>\<open>PutObject\<close> failing, the handler answers 200, the record
  carries the new video URL and the object store holds nothing.
\<close>

theorem part_001_ignores_PutObject_error:
  "status (handlerUploadVideo_part_001 sample_cfg (sample_env\<lparr>PutObject_ok := \<lambda>_ _. False\<rparr>)
             (video_request ''alice-token'') sample_world) = 200
   \<and> db (after (handlerUploadVideo_part_001 sample_cfg (sample_env\<lparr>PutObject_ok := \<lambda>_ _. False\<rparr>)
             (video_request ''alice-token'') sample_world)) vid =
       Some (sample_video\<lparr>VideoURL := Some
         ''https://tubely.s3.us-east-2.amazonaws.com/landscape/videos/AAAAAAAAAAAAAAAAAAAAAAAAAAAAAAAAAAAAAAAAAAA.mp4''\<rparr>)
   \<and> s3 (after (handlerUploadVideo_part_001 sample_cfg (sample_env\<lparr>PutObject_ok := \<lambda>_ _. False\<rparr>)
             (video_request ''alice-token'') sample_world)) = Map.empty"
  using sample_aspect [of "\<lambda>_ _. False"] sample_name
  by (simp add: video_defs store_defs respond_defs status_defs sample_defs aspectString_def Let_def)

text \<open>
  \<^verbatim>\<open>src/handler_upload_video.go\<close> does read the error: when \<^verbatim>\<open>PutObject\<close> cannot succeed,
  no request ends with status 200 and neither the records nor the objects change.
\<close>

lemma handlerUploadVideo_PutObject_error:
  assumes "\<And>bucket key. \<not> PutObject_ok ev bucket key"
  shows "status (handlerUploadVideo cfg ev r w) \<noteq> 200
    \<and> db (after (handlerUploadVideo cfg ev r w)) = db w
    \<and> s3 (after (handlerUploadVideo cfg ev r w)) = s3 w"
  using assms
  by (simp add: video_defs store_defs respond_defs status_defs Let_def
      split: option.splits list.splits prod.splits sum.splits err.splits bool.splits)

text \<open>
  C4: a request for a well-formed identifier that the metadata store does not know is to
  end with status 404. The thumbnail handler answers 404; both video handlers answer 500
  to the same failed fetch.
\<close>

theorem video_handlers_unknown_video_500:
  "GetVideo empty_world vid = None
   \<and> status (handlerUploadVideo sample_cfg sample_env (video_request ''alice-token'') empty_world) = 500
   \<and> status (handlerUploadVideo_part_001 sample_cfg sample_env (video_request ''alice-token'') empty_world) = 500
   \<and> status (handlerUploadThumbnail sample_cfg sample_env (thumbnail_request ''alice-token'' ''image/png'') empty_world) = 404"
  by (simp add: video_defs handlerUploadThumbnail_def store_defs respond_defs status_defs sample_defs Let_def)

text \<open>The same for every authenticated request whose fetch fails.\<close>

lemma fetch_failure_status:
  assumes "uuid_Parse ev (pathVideoID r) = Some videoID"
    and "GetBearerToken ev (header r) = Some token"
    and "ValidateJWT ev token (jwtSecret cfg) = Some userID"
    and "GetVideo w videoID = None"
  shows "status (handlerUploadVideo cfg ev r w) = 500"
    and "status (handlerUploadVideo_part_001 cfg ev r w) = 500"
    and "status (handlerUploadThumbnail cfg ev r w) = 404 \<or> status (handlerUploadThumbnail cfg ev r w) = 400"
  using assms
  by (simp_all add: video_defs handlerUploadThumbnail_def respond_defs status_defs Let_def
      split: option.splits list.splits)

lemmas thumbnail_defs = handlerUploadThumbnail_def thumbnail_checks_pass_def

text \<open>
  C5, as the code has it: for an authenticated user who does not own the record, both
  video handlers answer 401; the thumbnail handler, which checks the form and the media
  type before it fetches the record, answers 401 when those checks pass and 400 when
  they do not. In every case no file is written, no object is stored and no record is
  updated: the state after the request is the state before it.
\<close>

theorem non_owner_rejected:
  assumes "uuid_Parse ev (pathVideoID r) = Some videoID"
    and "GetBearerToken ev (header r) = Some token"
    and "ValidateJWT ev token (jwtSecret cfg) = Some userID"
    and "GetVideo w videoID = Some video"
    and "UserID video \<noteq> userID"
  shows "status (handlerUploadVideo cfg ev r w) = 401
    \<and> after (handlerUploadVideo cfg ev r w) = w
    \<and> status (handlerUploadVideo_part_001 cfg ev r w) = 401
    \<and> after (handlerUploadVideo_part_001 cfg ev r w) = w
    \<and> status (handlerUploadThumbnail cfg ev r w) = (if thumbnail_checks_pass ev r then 401 else 400)
    \<and> after (handlerUploadThumbnail cfg ev r w) = w"
proof -
  have v: "status (handlerUploadVideo cfg ev r w) = 401 \<and> after (handlerUploadVideo cfg ev r w) = w"
    using assms
    by (simp add: handlerUploadVideo_def uploadVideo_prefix_def respond_defs status_defs Let_def)
  have p: "status (handlerUploadVideo_part_001 cfg ev r w) = 401
      \<and> after (handlerUploadVideo_part_001 cfg ev r w) = w"
    using assms
    by (simp add: handlerUploadVideo_part_001_def uploadVideo_prefix_def respond_defs
        status_defs Let_def)
  have t: "status (handlerUploadThumbnail cfg ev r w) = (if thumbnail_checks_pass ev r then 401 else 400)
      \<and> after (handlerUploadThumbnail cfg ev r w) = w"
    using assms
    by (simp add: thumbnail_defs respond_defs status_defs Let_def
        split: option.splits list.splits)
  from v p t show ?thesis by simp
qed

text \<open>The theorem at the requests of \<open>bob\<close> for the video of \<open>alice\<close>.\<close>

theorem non_owner_rejected_witness:
  "status (handlerUploadVideo sample_cfg sample_env (video_request ''bob-token'') sample_world) = 401
   \<and> after (handlerUploadVideo sample_cfg sample_env (video_request ''bob-token'') sample_world) = sample_world
   \<and> status (handlerUploadThumbnail sample_cfg sample_env
         (thumbnail_request ''bob-token'' ''image/png'') sample_world) = 401"
proof -
  have a: "uuid_Parse sample_env (pathVideoID (video_request ''bob-token'')) = Some vid"
    and a': "uuid_Parse sample_env (pathVideoID (thumbnail_request ''bob-token'' ''image/png'')) = Some vid"
    and b: "GetBearerToken sample_env (header (video_request ''bob-token'')) = Some ''bob-token''"
    and b': "GetBearerToken sample_env (header (thumbnail_request ''bob-token'' ''image/png'')) = Some ''bob-token''"
    and c: "ValidateJWT sample_env ''bob-token'' (jwtSecret sample_cfg) = Some bob"
    and d: "GetVideo sample_world vid = Some sample_video"
    and e: "UserID sample_video \<noteq> bob"
    and f: "thumbnail_checks_pass sample_env (thumbnail_request ''bob-token'' ''image/png'')"
    by (simp_all add: sample_defs GetVideo_def thumbnail_checks_pass_def)
  from non_owner_rejected [OF a b c d e] non_owner_rejected [OF a' b' c d e] f
  show ?thesis by simp
qed

text \<open>
  C5 as stated fails: \<open>bob\<close>, authenticated and not the owner, uploads a thumbnail with
  the content type \<^verbatim>\<open>text/plain\<close>, and the thumbnail handler answers 400, not 401.
\<close>

theorem thumbnail_non_owner_400:
  "ValidateJWT sample_env ''bob-token'' (jwtSecret sample_cfg) = Some bob
   \<and> GetVideo sample_world vid = Some sample_video
   \<and> UserID sample_video = alice
   \<and> alice \<noteq> bob
   \<and> status (handlerUploadThumbnail sample_cfg sample_env
         (thumbnail_request ''bob-token'' ''text/plain'') sample_world) = 400"
  by (simp add: thumbnail_defs respond_defs status_defs sample_defs GetVideo_def Let_def)

lemma video_phase_order:
  "prefix (phases (trace (handlerUploadVideo cfg ev r w))) spec_order
   \<and> (status (handlerUploadVideo cfg ev r w) = 200 \<longrightarrow>
        phases (trace (handlerUploadVideo cfg ev r w)) = spec_order)"
  by (simp add: video_defs respond_defs status_defs store_defs Let_def spec_order_def
      phases_def List.map_filter_simps
      split: option.splits list.splits prod.splits sum.splits err.splits bool.splits)

lemma part_001_phase_order:
  "prefix (phases (trace (handlerUploadVideo_part_001 cfg ev r w))) spec_order
   \<and> (status (handlerUploadVideo_part_001 cfg ev r w) = 200 \<longrightarrow>
        phases (trace (handlerUploadVideo_part_001 cfg ev r w)) = spec_order)"
  by (simp add: video_defs respond_defs status_defs store_defs Let_def spec_order_def
      phases_def List.map_filter_simps
      split: option.splits list.splits prod.splits sum.splits err.splits bool.splits)

lemma thumbnail_phase_order:
  "prefix (phases (trace (handlerUploadThumbnail cfg ev r w))) thumbnail_order
   \<and> (status (handlerUploadThumbnail cfg ev r w) = 200 \<longrightarrow>
        phases (trace (handlerUploadThumbnail cfg ev r w)) = thumbnail_order)"
  by (simp add: thumbnail_defs respond_defs status_defs store_defs Let_def thumbnail_order_def
      phases_def List.map_filter_simps
      split: option.splits list.splits prod.splits sum.splits err.splits bool.splits)

lemma sample_aspect': "getVideoAspectRatio sample_env p = Inr ''16:9''"
  using sample_aspect [of "PutObject_ok sample_env" p] by simp

text \<open>
  C6, as the code has it: the phases a request goes through are an initial part of the
  spec's order (authenticate, fetch, ownership, decode, validate, persist, update) in both
  video handlers, and all of it when the request succeeds; in the thumbnail handler they
  are an initial part of the order authenticate, decode, validate, fetch, ownership,
  persist, update.
\<close>

theorem handlers_phase_order:
  "prefix (phases (trace (handlerUploadVideo cfg ev r w))) spec_order
   \<and> (status (handlerUploadVideo cfg ev r w) = 200 \<longrightarrow>
        phases (trace (handlerUploadVideo cfg ev r w)) = spec_order)
   \<and> prefix (phases (trace (handlerUploadVideo_part_001 cfg ev r w))) spec_order
   \<and> (status (handlerUploadVideo_part_001 cfg ev r w) = 200 \<longrightarrow>
        phases (trace (handlerUploadVideo_part_001 cfg ev r w)) = spec_order)
   \<and> prefix (phases (trace (handlerUploadThumbnail cfg ev r w))) thumbnail_order
   \<and> (status (handlerUploadThumbnail cfg ev r w) = 200 \<longrightarrow>
        phases (trace (handlerUploadThumbnail cfg ev r w)) = thumbnail_order)"
  using video_phase_order [of cfg ev r w] part_001_phase_order [of cfg ev r w]
    thumbnail_phase_order [of cfg ev r w]
  by blast

text \<open>The theorem at the owner's successful video upload.\<close>

theorem handlers_phase_order_witness:
  "status (handlerUploadVideo sample_cfg sample_env (video_request ''alice-token'') sample_world) = 200
   \<and> phases (trace (handlerUploadVideo sample_cfg sample_env (video_request ''alice-token'')
        sample_world)) = [Authenticate, Fetch, Ownership, Decode, Validate, Persist, Update]"
proof -
  have ok: "status (handlerUploadVideo sample_cfg sample_env (video_request ''alice-token'')
      sample_world) = 200"
    using sample_aspect'
    by (simp add: video_defs store_defs respond_defs status_defs sample_defs aspectString_def Let_def)
  with handlers_phase_order [of sample_cfg sample_env "video_request ''alice-token''" sample_world]
  show ?thesis by (simp add: spec_order_def)
qed

text \<open>
  C6 as stated fails: in the owner's successful thumbnail upload the form is decoded and
  the media type validated before the record is fetched and the ownership checked.
\<close>

theorem thumbnail_decodes_before_fetch:
  "status (handlerUploadThumbnail sample_cfg sample_env
      (thumbnail_request ''alice-token'' ''image/png'') sample_world) = 200
   \<and> phases (trace (handlerUploadThumbnail sample_cfg sample_env
      (thumbnail_request ''alice-token'' ''image/png'') sample_world)) =
       [Authenticate, Decode, Validate, Fetch, Ownership, Persist, Update]
   \<and> \<not> prefix (phases (trace (handlerUploadThumbnail sample_cfg sample_env
      (thumbnail_request ''alice-token'' ''image/png'') sample_world))) spec_order"
  by (simp add: thumbnail_defs store_defs respond_defs status_defs sample_defs Let_def
      phases_def List.map_filter_simps spec_order_def)

text \<open>
  \<^verbatim>\<open>EncodeToString\<close> is injective: the alphabet has 64 distinct characters, and four
  six-bit digits determine three bytes.
\<close>

lemma encodeURL_length: "length encodeURL = 64"
  by (simp add: encodeURL_def)

lemma sextets_inj:
  fixes v v' :: nat
  assumes "v < 16777216" "v' < 16777216"
    and e3: "v div 262144 mod 64 = v' div 262144 mod 64"
    and e2: "v div 4096 mod 64 = v' div 4096 mod 64"
    and e1: "v div 64 mod 64 = v' div 64 mod 64"
    and e0: "v mod 64 = v' mod 64"
  shows "v = v'"
proof -
  have s: "\<And>n::nat. n div 4096 = n div 64 div 64" "\<And>n::nat. n div 262144 = n div 4096 div 64"
    by (simp_all add: div_mult2_eq)
  have "v div 262144 < 64" "v' div 262144 < 64"
    using assms(1,2) by simp_all
  with e3 have q3: "v div 262144 = v' div 262144" by simp
  have "v div 4096 = v div 4096 div 64 * 64 + v div 4096 mod 64" by simp
  also have "\<dots> = v' div 4096 div 64 * 64 + v' div 4096 mod 64"
    using q3 e2 by (simp add: s(2))
  also have "\<dots> = v' div 4096" by simp
  finally have q2: "v div 4096 = v' div 4096" .
  have "v div 64 = v div 64 div 64 * 64 + v div 64 mod 64" by simp
  also have "\<dots> = v' div 64 div 64 * 64 + v' div 64 mod 64"
    using q2 e1 by (simp add: s(1))
  also have "\<dots> = v' div 64" by simp
  finally have q1: "v div 64 = v' div 64" .
  have "v = v div 64 * 64 + v mod 64" by simp
  also have "\<dots> = v' div 64 * 64 + v' mod 64"
    using q1 e0 by simp
  also have "\<dots> = v'" by simp
  finally show ?thesis .
qed

lemma unat_byte: "unat (x::byte) < 256"
  using unsigned_less [of x, where ?'a = nat] by simp

lemma base_inj:
  fixes q c q' c' n :: nat
  assumes "c < n" "c' < n" "q * n + c = q' * n + c'"
  shows "q = q' \<and> c = c'"
proof -
  have "(q * n + c) mod n = c" "(q' * n + c') mod n = c'"
    using assms(1,2) by simp_all
  moreover have "(q * n + c) div n = q" "(q' * n + c') div n = q'"
    using assms(1,2) by simp_all
  ultimately show ?thesis
    using assms(3) by metis
qed

lemma bytes3_inj:
  fixes a b c a' b' c' :: byte
  assumes eq: "unat a * 65536 + unat b * 256 + unat c = unat a' * 65536 + unat b' * 256 + unat c'"
  shows "a = a' \<and> b = b' \<and> c = c'"
proof -
  have "(unat a * 256 + unat b) * 256 + unat c = (unat a' * 256 + unat b') * 256 + unat c'"
    using eq by simp
  from base_inj [OF unat_byte unat_byte this]
  have 1: "unat a * 256 + unat b = unat a' * 256 + unat b'" and 2: "unat c = unat c'"
    by simp_all
  from base_inj [OF unat_byte unat_byte 1] 2
  show ?thesis by (simp add: word_unat_eq_iff)
qed

lemma encodeURL_distinct: "distinct encodeURL"
  by (simp add: encodeURL_def)

lemma encodeURL_inj: "i < 64 \<Longrightarrow> j < 64 \<Longrightarrow> encodeURL ! i = encodeURL ! j \<Longrightarrow> i = j"
  using encodeURL_distinct encodeURL_length by (simp add: nth_eq_iff_index_eq)


lemma value24: "unat (a::byte) * 65536 + unat (b::byte) * 256 + unat (c::byte) < 16777216"
  using unat_byte [of a] unat_byte [of b] unat_byte [of c] by linarith

lemma sextet_chars_inj:
  fixes v v' :: nat
  assumes "v < 16777216" "v' < 16777216"
    and "encodeURL ! (v div 262144 mod 64) = encodeURL ! (v' div 262144 mod 64)"
    and "encodeURL ! (v div 4096 mod 64) = encodeURL ! (v' div 4096 mod 64)"
    and "encodeURL ! (v div 64 mod 64) = encodeURL ! (v' div 64 mod 64)"
    and "v mod 64 = v' mod 64"
  shows "v = v'"
proof (rule sextets_inj [OF assms(1,2)])
  show "v div 262144 mod 64 = v' div 262144 mod 64"
    using assms(3) by (intro encodeURL_inj) simp_all
  show "v div 4096 mod 64 = v' div 4096 mod 64"
    using assms(4) by (intro encodeURL_inj) simp_all
  show "v div 64 mod 64 = v' div 64 mod 64"
    using assms(5) by (intro encodeURL_inj) simp_all
  show "v mod 64 = v' mod 64" by (rule assms(6))
qed

lemma mod64_char_inj:
  "encodeURL ! (v mod 64) = encodeURL ! (v' mod 64) \<Longrightarrow> v mod 64 = v' mod 64"
  by (intro encodeURL_inj) simp_all

lemma EncodeToString_inj: "EncodeToString xs = EncodeToString ys \<Longrightarrow> xs = ys"
proof (induction xs arbitrary: ys rule: EncodeToString.induct)
  case (1 a b c rest)
  show ?case
  proof (cases ys rule: EncodeToString.cases)
    case (1 a' b' c' rest')
    let ?v = "unat a * 65536 + unat b * 256 + unat c"
    let ?v' = "unat a' * 65536 + unat b' * 256 + unat c'"
    from "1.prems" 1 have chars:
      "encodeURL ! (?v div 262144 mod 64) = encodeURL ! (?v' div 262144 mod 64)"
      "encodeURL ! (?v div 4096 mod 64) = encodeURL ! (?v' div 4096 mod 64)"
      "encodeURL ! (?v div 64 mod 64) = encodeURL ! (?v' div 64 mod 64)"
      "encodeURL ! (?v mod 64) = encodeURL ! (?v' mod 64)"
      and tl: "EncodeToString rest = EncodeToString rest'"
      by (simp_all add: Let_def)
    from sextet_chars_inj [OF value24 value24 chars(1,2,3) mod64_char_inj [OF chars(4)]]
    have "?v = ?v'" .
    then have "a = a' \<and> b = b' \<and> c = c'" by (rule bytes3_inj)
    moreover from "1.IH" tl have "rest = rest'" by simp
    ultimately show ?thesis using 1 by simp
  next
    case (2 a' b')
    with "1.prems" show ?thesis by (simp add: Let_def)
  next
    case (3 a')
    with "1.prems" show ?thesis by (simp add: Let_def)
  next
    case 4
    with "1.prems" show ?thesis by (simp add: Let_def)
  qed
next
  case (2 a b)
  show ?case
  proof (cases ys rule: EncodeToString.cases)
    case (1 a' b' c' rest')
    with "2.prems" show ?thesis by (simp add: Let_def)
  next
    case (2 a' b')
    let ?v = "unat a * 65536 + unat b * 256 + unat (0::byte)"
    let ?v' = "unat a' * 65536 + unat b' * 256 + unat (0::byte)"
    from "2.prems" 2 have chars:
      "encodeURL ! (?v div 262144 mod 64) = encodeURL ! (?v' div 262144 mod 64)"
      "encodeURL ! (?v div 4096 mod 64) = encodeURL ! (?v' div 4096 mod 64)"
      "encodeURL ! (?v div 64 mod 64) = encodeURL ! (?v' div 64 mod 64)"
      by (simp_all add: Let_def)
    have "?v mod 64 = ?v' mod 64" by simp
    from sextet_chars_inj [OF value24 value24 chars this]
    have "?v = ?v'" .
    then have "a = a' \<and> b = b' \<and> (0::byte) = 0" by (rule bytes3_inj)
    then show ?thesis using 2 by simp
  next
    case (3 a')
    with "2.prems" show ?thesis by (simp add: Let_def)
  next
    case 4
    with "2.prems" show ?thesis by (simp add: Let_def)
  qed
next
  case (3 a)
  show ?case
  proof (cases ys rule: EncodeToString.cases)
    case (1 a' b' c' rest')
    with "3.prems" show ?thesis by (simp add: Let_def)
  next
    case (2 a' b')
    with "3.prems" show ?thesis by (simp add: Let_def)
  next
    case (3 a')
    let ?v = "unat a * 65536 + unat (0::byte) * 256 + unat (0::byte)"
    let ?v' = "unat a' * 65536 + unat (0::byte) * 256 + unat (0::byte)"
    from "3.prems" 3 have chars:
      "encodeURL ! (?v div 262144 mod 64) = encodeURL ! (?v' div 262144 mod 64)"
      "encodeURL ! (?v div 4096 mod 64) = encodeURL ! (?v' div 4096 mod 64)"
      by (simp_all add: Let_def)
    have z: "?v div 64 mod 64 = ?v' div 64 mod 64" "?v mod 64 = ?v' mod 64" by simp_all
    from sextets_inj [OF value24 value24 encodeURL_inj [OF _ _ chars(1)]
        encodeURL_inj [OF _ _ chars(2)] z]
    have "?v = ?v'" by simp
    then have "a = a' \<and> (0::byte) = 0 \<and> (0::byte) = 0" by (rule bytes3_inj)
    then show ?thesis using 3 by simp
  next
    case 4
    with "3.prems" show ?thesis by (simp add: Let_def)
  qed
next
  case 4
  then show ?case
    by (cases ys rule: EncodeToString.cases) (simp_all add: Let_def)
qed

text \<open>
  What a response with status 200 says about the request: every call before it
  succeeded, and the state after it is the state before it with the stored bytes and the
  updated record.
\<close>

lemma aspectString_cases:
  "aspectString ar = ''landscape'' \<or> aspectString ar = ''portrait'' \<or> aspectString ar = ''other''"
  by (simp add: aspectString_def)

lemma handlerUploadVideo_success:
  assumes "status (handlerUploadVideo cfg ev r w) = 200"
  shows "\<exists>videoID video tempName ar processed.
      uuid_Parse ev (pathVideoID r) = Some videoID
    \<and> GetVideo w videoID = Some video
    \<and> CreateTemp_name ev = Some tempName
    \<and> getVideoAspectRatio ev tempName = Inr ar
    \<and> s3 (after (handlerUploadVideo cfg ev r w)) =
        (s3 w)((s3Bucket cfg, aspectString ar @ ''/'' @ videoID @ ''.mp4'')
          \<mapsto> \<lparr>objBody = processed, objContentType = ''video/mp4''\<rparr>)
    \<and> respBody (handlerUploadVideo cfg ev r w) = VideoBody (video\<lparr>VideoURL :=
        Some (''https://'' @ s3CfDistribution cfg @ ''/'' @ aspectString ar @ ''/'' @ videoID @ ''.mp4'')\<rparr>)
    \<and> db (after (handlerUploadVideo cfg ev r w)) = (db w)(ID video \<mapsto> video\<lparr>VideoURL :=
        Some (''https://'' @ s3CfDistribution cfg @ ''/'' @ aspectString ar @ ''/'' @ videoID @ ''.mp4'')\<rparr>)"
  using assms
  by (auto simp: video_defs store_defs respond_defs status_defs Let_def
      split: option.splits list.splits prod.splits sum.splits err.splits if_splits)

lemma part_001_success:
  assumes "status (handlerUploadVideo_part_001 cfg ev r w) = 200"
  shows "\<exists>videoID video file tempName ar key.
      uuid_Parse ev (pathVideoID r) = Some videoID
    \<and> GetVideo w videoID = Some video
    \<and> FormFile_limited r ''video'' = Some file
    \<and> CreateTemp_name ev = Some tempName
    \<and> getVideoAspectRatio ev tempName = Inr ar
    \<and> rand_Read ev = Some key
    \<and> s3 (after (handlerUploadVideo_part_001 cfg ev r w)) =
        (if PutObject_ok ev (s3Bucket cfg) (aspectString ar @ ''/videos/'' @ EncodeToString key @ ''.mp4'')
         then (s3 w)((s3Bucket cfg, aspectString ar @ ''/videos/'' @ EncodeToString key @ ''.mp4'')
                \<mapsto> \<lparr>objBody = fileBytes file, objContentType = ''video/mp4''\<rparr>)
         else s3 w)
    \<and> respBody (handlerUploadVideo_part_001 cfg ev r w) =
        URLBody (''https://'' @ s3Bucket cfg @ ''.s3.'' @ s3Region cfg @ ''.amazonaws.com/''
                 @ aspectString ar @ ''/videos/'' @ EncodeToString key @ ''.mp4'')
    \<and> db (after (handlerUploadVideo_part_001 cfg ev r w)) = (db w)(ID video \<mapsto> video\<lparr>VideoURL :=
        Some (''https://'' @ s3Bucket cfg @ ''.s3.'' @ s3Region cfg @ ''.amazonaws.com/''
                 @ aspectString ar @ ''/videos/'' @ EncodeToString key @ ''.mp4'')\<rparr>)"
  using assms
  by (auto simp: video_defs store_defs respond_defs status_defs Let_def
      split: option.splits list.splits prod.splits sum.splits err.splits if_splits)

lemma thumbnail_success:
  assumes "status (handlerUploadThumbnail cfg ev r w) = 200"
  shows "\<exists>videoID video fm file ext rest key.
      uuid_Parse ev (pathVideoID r) = Some videoID
    \<and> GetVideo w videoID = Some video
    \<and> form r = Some fm \<and> fm ''thumbnail'' = Some file
    \<and> ExtensionsByType ev (contentType file) = Some (ext # rest)
    \<and> (ext = ''.jpg'' \<or> ext = ''.png'')
    \<and> rand_Read ev = Some key
    \<and> files (after (handlerUploadThumbnail cfg ev r w)) =
        (files w)(filepath_Join ev (assetsRoot cfg) (EncodeToString key @ ext) \<mapsto> fileBytes file)
    \<and> respBody (handlerUploadThumbnail cfg ev r w) = VideoBody (video\<lparr>ThumbnailURL :=
        Some (''http://localhost:'' @ port cfg @ ''/assets/'' @ EncodeToString key @ ext)\<rparr>)
    \<and> db (after (handlerUploadThumbnail cfg ev r w)) = (db w)(ID video \<mapsto> video\<lparr>ThumbnailURL :=
        Some (''http://localhost:'' @ port cfg @ ''/assets/'' @ EncodeToString key @ ext)\<rparr>)"
  using assms
  by (auto simp: thumbnail_defs store_defs respond_defs status_defs Let_def
      split: option.splits list.splits prod.splits sum.splits err.splits if_splits)

lemma aspectString_in: "aspectString ar \<in> {''landscape'', ''portrait'', ''other''}"
  by (simp add: aspectString_def)

lemma random_keys_distinct:
  assumes "a1 \<in> {''landscape'', ''portrait'', ''other''}"
    and "a2 \<in> {''landscape'', ''portrait'', ''other''}"
    and "n1 \<noteq> n2"
  shows "a1 @ ''/videos/'' @ n1 @ ''.mp4'' \<noteq> a2 @ ''/videos/'' @ n2 @ ''.mp4''"
  using assms by auto

text \<open>
  C7, as the code has it: after a successful video upload by
  \<^verbatim>\<open>src/handler_upload_video.go\<close> the object is stored under the key
  \<^verbatim>\<open>{aspect}/{videoID}.mp4\<close>; by \<^verbatim>\<open>src/unnamed/part_001\<close> the key is
  \<^verbatim>\<open>{aspect}/videos/{randomName}.mp4\<close> (and the object is stored when \<^verbatim>\<open>PutObject\<close>
  succeeds); in both the aspect is the classification computed for the temporary file,
  one of landscape, portrait and other. After a successful thumbnail upload the file is
  stored under the name \<^verbatim>\<open>{randomName}{ext}\<close>, \<^verbatim>\<open>ext\<close> being \<^verbatim>\<open>.jpg\<close> or \<^verbatim>\<open>.png\<close>.
\<close>

theorem stored_key_forms:
  "(status (handlerUploadVideo cfg ev r w) = 200 \<longrightarrow>
      (\<exists>videoID tempName ar processed.
         uuid_Parse ev (pathVideoID r) = Some videoID
       \<and> CreateTemp_name ev = Some tempName
       \<and> getVideoAspectRatio ev tempName = Inr ar
       \<and> aspectString ar \<in> {''landscape'', ''portrait'', ''other''}
       \<and> s3 (after (handlerUploadVideo cfg ev r w)) =
           (s3 w)((s3Bucket cfg, aspectString ar @ ''/'' @ videoID @ ''.mp4'')
             \<mapsto> \<lparr>objBody = processed, objContentType = ''video/mp4''\<rparr>)))
   \<and> (status (handlerUploadVideo_part_001 cfg ev r w) = 200 \<longrightarrow>
      (\<exists>file tempName ar key.
         FormFile_limited r ''video'' = Some file
       \<and> CreateTemp_name ev = Some tempName
       \<and> getVideoAspectRatio ev tempName = Inr ar
       \<and> aspectString ar \<in> {''landscape'', ''portrait'', ''other''}
       \<and> rand_Read ev = Some key
       \<and> s3 (after (handlerUploadVideo_part_001 cfg ev r w)) =
           (if PutObject_ok ev (s3Bucket cfg)
                 (aspectString ar @ ''/videos/'' @ EncodeToString key @ ''.mp4'')
            then (s3 w)((s3Bucket cfg, aspectString ar @ ''/videos/'' @ EncodeToString key @ ''.mp4'')
                   \<mapsto> \<lparr>objBody = fileBytes file, objContentType = ''video/mp4''\<rparr>)
            else s3 w)
       \<and> respBody (handlerUploadVideo_part_001 cfg ev r w) =
           URLBody (''https://'' @ s3Bucket cfg @ ''.s3.'' @ s3Region cfg @ ''.amazonaws.com/''
                    @ aspectString ar @ ''/videos/'' @ EncodeToString key @ ''.mp4'')))
   \<and> (status (handlerUploadThumbnail cfg ev r w) = 200 \<longrightarrow>
      (\<exists>fm file ext key.
         form r = Some fm \<and> fm ''thumbnail'' = Some file
       \<and> (ext = ''.jpg'' \<or> ext = ''.png'')
       \<and> rand_Read ev = Some key
       \<and> files (after (handlerUploadThumbnail cfg ev r w)) =
           (files w)(filepath_Join ev (assetsRoot cfg) (EncodeToString key @ ext)
             \<mapsto> fileBytes file)))"
proof (intro conjI impI)
  assume "status (handlerUploadVideo cfg ev r w) = 200"
  from handlerUploadVideo_success [OF this] aspectString_in
  show "\<exists>videoID tempName ar processed.
         uuid_Parse ev (pathVideoID r) = Some videoID
       \<and> CreateTemp_name ev = Some tempName
       \<and> getVideoAspectRatio ev tempName = Inr ar
       \<and> aspectString ar \<in> {''landscape'', ''portrait'', ''other''}
       \<and> s3 (after (handlerUploadVideo cfg ev r w)) =
           (s3 w)((s3Bucket cfg, aspectString ar @ ''/'' @ videoID @ ''.mp4'')
             \<mapsto> \<lparr>objBody = processed, objContentType = ''video/mp4''\<rparr>)"
    by blast
next
  assume "status (handlerUploadVideo_part_001 cfg ev r w) = 200"
  from part_001_success [OF this] aspectString_in
  show "\<exists>file tempName ar key.
         FormFile_limited r ''video'' = Some file
       \<and> CreateTemp_name ev = Some tempName
       \<and> getVideoAspectRatio ev tempName = Inr ar
       \<and> aspectString ar \<in> {''landscape'', ''portrait'', ''other''}
       \<and> rand_Read ev = Some key
       \<and> s3 (after (handlerUploadVideo_part_001 cfg ev r w)) =
           (if PutObject_ok ev (s3Bucket cfg)
                 (aspectString ar @ ''/videos/'' @ EncodeToString key @ ''.mp4'')
            then (s3 w)((s3Bucket cfg, aspectString ar @ ''/videos/'' @ EncodeToString key @ ''.mp4'')
                   \<mapsto> \<lparr>objBody = fileBytes file, objContentType = ''video/mp4''\<rparr>)
            else s3 w)
       \<and> respBody (handlerUploadVideo_part_001 cfg ev r w) =
           URLBody (''https://'' @ s3Bucket cfg @ ''.s3.'' @ s3Region cfg @ ''.amazonaws.com/''
                    @ aspectString ar @ ''/videos/'' @ EncodeToString key @ ''.mp4'')"
    by blast
next
  assume "status (handlerUploadThumbnail cfg ev r w) = 200"
  from thumbnail_success [OF this]
  show "\<exists>fm file ext key.
         form r = Some fm \<and> fm ''thumbnail'' = Some file
       \<and> (ext = ''.jpg'' \<or> ext = ''.png'')
       \<and> rand_Read ev = Some key
       \<and> files (after (handlerUploadThumbnail cfg ev r w)) =
           (files w)(filepath_Join ev (assetsRoot cfg) (EncodeToString key @ ext)
             \<mapsto> fileBytes file)"
    by blast
qed

lemma sample_video_ok:
  "status (handlerUploadVideo sample_cfg sample_env (video_request ''alice-token'') sample_world) = 200"
  using sample_aspect'
  by (simp add: video_defs store_defs respond_defs status_defs sample_defs aspectString_def Let_def)

lemma sample_part_001_ok:
  "status (handlerUploadVideo_part_001 sample_cfg sample_env (video_request ''alice-token'') sample_world) = 200"
  using sample_aspect' sample_name
  by (simp add: video_defs store_defs respond_defs status_defs sample_defs aspectString_def Let_def)

lemma sample_thumbnail_ok:
  "status (handlerUploadThumbnail sample_cfg sample_env
     (thumbnail_request ''alice-token'' ''image/png'') sample_world) = 200"
  by (simp add: thumbnail_defs store_defs respond_defs status_defs sample_defs Let_def)

text \<open>The theorem at the owner's successful video upload.\<close>

theorem stored_key_forms_witness:
  "\<exists>videoID tempName ar processed.
         uuid_Parse sample_env (pathVideoID (video_request ''alice-token'')) = Some videoID
       \<and> CreateTemp_name sample_env = Some tempName
       \<and> getVideoAspectRatio sample_env tempName = Inr ar
       \<and> aspectString ar \<in> {''landscape'', ''portrait'', ''other''}
       \<and> s3 (after (handlerUploadVideo sample_cfg sample_env (video_request ''alice-token'')
              sample_world)) =
           (s3 sample_world)((s3Bucket sample_cfg, aspectString ar @ ''/'' @ videoID @ ''.mp4'')
             \<mapsto> \<lparr>objBody = processed, objContentType = ''video/mp4''\<rparr>)"
  using stored_key_forms [of sample_cfg sample_env "video_request ''alice-token''" sample_world]
    sample_video_ok
  by blast

text \<open>
  C7 as stated fails: the key of a successful upload by \<^verbatim>\<open>src/unnamed/part_001\<close> has the
  segment \<^verbatim>\<open>videos/\<close> between the aspect and the random name, so it is neither the aspect
  followed by the random name nor the aspect followed by the video identifier.
\<close>

theorem part_001_key_has_videos_segment:
  "status (handlerUploadVideo_part_001 sample_cfg sample_env (video_request ''alice-token'')
      sample_world) = 200
   \<and> EncodeToString sample_key = ''AAAAAAAAAAAAAAAAAAAAAAAAAAAAAAAAAAAAAAAAAAA''
   \<and> s3 (after (handlerUploadVideo_part_001 sample_cfg sample_env (video_request ''alice-token'')
         sample_world)) =
       [(''tubely'', ''landscape/videos/AAAAAAAAAAAAAAAAAAAAAAAAAAAAAAAAAAAAAAAAAAA.mp4'')
          \<mapsto> \<lparr>objBody = [7, 8, 9], objContentType = ''video/mp4''\<rparr>]
   \<and> ''landscape/videos/AAAAAAAAAAAAAAAAAAAAAAAAAAAAAAAAAAAAAAAAAAA.mp4''
        \<noteq> ''landscape/'' @ EncodeToString sample_key @ ''.mp4''
   \<and> ''landscape/videos/AAAAAAAAAAAAAAAAAAAAAAAAAAAAAAAAAAAAAAAAAAA.mp4''
        \<noteq> ''landscape/'' @ vid @ ''.mp4''"
  using sample_aspect' sample_name
  by (simp add: video_defs store_defs respond_defs status_defs sample_defs aspectString_def Let_def)

text \<open>
  A successful upload by \<^verbatim>\<open>src/handler_upload_video.go\<close> stores the bytes that ffmpeg wrote
  for the temporary file of this request.
\<close>

lemma handlerUploadVideo_success_stored:
  assumes "status (handlerUploadVideo cfg ev r w) = 200"
  shows "\<exists>videoID video tempName ar processed.
      uuid_Parse ev (pathVideoID r) = Some videoID
    \<and> GetVideo w videoID = Some video
    \<and> CreateTemp_name ev = Some tempName
    \<and> getVideoAspectRatio ev tempName = Inr ar
    \<and> ffmpeg ev [''-i'', tempName, ''-c'', ''copy'', ''-movflags'', ''faststart'', ''-f'', ''mp4'',
           take (length tempName - 4) tempName @ ''-faststart.mp4''] = Some processed
    \<and> s3 (after (handlerUploadVideo cfg ev r w)) =
        (s3 w)((s3Bucket cfg, aspectString ar @ ''/'' @ videoID @ ''.mp4'')
          \<mapsto> \<lparr>objBody = processed, objContentType = ''video/mp4''\<rparr>)
    \<and> respBody (handlerUploadVideo cfg ev r w) = VideoBody (video\<lparr>VideoURL :=
        Some (''https://'' @ s3CfDistribution cfg @ ''/'' @ aspectString ar @ ''/'' @ videoID @ ''.mp4'')\<rparr>)
    \<and> db (after (handlerUploadVideo cfg ev r w)) = (db w)(ID video \<mapsto> video\<lparr>VideoURL :=
        Some (''https://'' @ s3CfDistribution cfg @ ''/'' @ aspectString ar @ ''/'' @ videoID @ ''.mp4'')\<rparr>)"
  using assms
  by (auto simp: video_defs store_defs respond_defs status_defs Let_def
      split: option.splits list.splits prod.splits sum.splits err.splits if_splits)

text \<open>
  Two successful uploads for the same video, the second on the state the first left.
  Each upload puts its object under the key made of the aspect computed for its own
  temporary file, and the record carries the URL of the second. With the random names of
  \<^verbatim>\<open>src/unnamed/part_001\<close>, different random bytes give different keys, and an object is
  in the store when its \<^verbatim>\<open>PutObject\<close> succeeded; with the keys of
  \<^verbatim>\<open>src/handler_upload_video.go\<close>, uploads of the same aspect share the key and the second
  object takes the place of the first.
\<close>

lemma part_001_two_uploads_stored:
  assumes ok1: "status (handlerUploadVideo_part_001 cfg ev1 r1 w) = 200"
    and ok2: "status (handlerUploadVideo_part_001 cfg ev2 r2
                (after (handlerUploadVideo_part_001 cfg ev1 r1 w))) = 200"
    and id1: "uuid_Parse ev1 (pathVideoID r1) = Some videoID"
    and id2: "uuid_Parse ev2 (pathVideoID r2) = Some videoID"
    and rec: "GetVideo w videoID = Some video" "ID video = videoID"
    and k1: "rand_Read ev1 = Some key1"
    and k2: "rand_Read ev2 = Some key2"
    and ne: "key1 \<noteq> key2"
  shows "\<exists>file1 file2 temp1 temp2 ar1 ar2 s3Key1 s3Key2.
      FormFile_limited r1 ''video'' = Some file1
    \<and> FormFile_limited r2 ''video'' = Some file2
    \<and> CreateTemp_name ev1 = Some temp1 \<and> getVideoAspectRatio ev1 temp1 = Inr ar1
    \<and> CreateTemp_name ev2 = Some temp2 \<and> getVideoAspectRatio ev2 temp2 = Inr ar2
    \<and> s3Key1 = aspectString ar1 @ ''/videos/'' @ EncodeToString key1 @ ''.mp4''
    \<and> s3Key2 = aspectString ar2 @ ''/videos/'' @ EncodeToString key2 @ ''.mp4''
    \<and> s3Key1 \<noteq> s3Key2
    \<and> respBody (handlerUploadVideo_part_001 cfg ev1 r1 w) =
        URLBody (''https://'' @ s3Bucket cfg @ ''.s3.'' @ s3Region cfg @ ''.amazonaws.com/'' @ s3Key1)
    \<and> respBody (handlerUploadVideo_part_001 cfg ev2 r2
          (after (handlerUploadVideo_part_001 cfg ev1 r1 w))) =
        URLBody (''https://'' @ s3Bucket cfg @ ''.s3.'' @ s3Region cfg @ ''.amazonaws.com/'' @ s3Key2)
    \<and> db (after (handlerUploadVideo_part_001 cfg ev1 r1 w)) videoID =
        Some (video\<lparr>VideoURL := Some (''https://'' @ s3Bucket cfg @ ''.s3.'' @ s3Region cfg
                 @ ''.amazonaws.com/'' @ s3Key1)\<rparr>)
    \<and> db (after (handlerUploadVideo_part_001 cfg ev2 r2
          (after (handlerUploadVideo_part_001 cfg ev1 r1 w)))) videoID =
        Some (video\<lparr>VideoURL := Some (''https://'' @ s3Bucket cfg @ ''.s3.'' @ s3Region cfg
                 @ ''.amazonaws.com/'' @ s3Key2)\<rparr>)
    \<and> s3 (after (handlerUploadVideo_part_001 cfg ev1 r1 w)) =
        (if PutObject_ok ev1 (s3Bucket cfg) s3Key1
         then (s3 w)((s3Bucket cfg, s3Key1)
                \<mapsto> \<lparr>objBody = fileBytes file1, objContentType = ''video/mp4''\<rparr>)
         else s3 w)
    \<and> s3 (after (handlerUploadVideo_part_001 cfg ev2 r2
          (after (handlerUploadVideo_part_001 cfg ev1 r1 w)))) =
        (if PutObject_ok ev2 (s3Bucket cfg) s3Key2
         then (s3 (after (handlerUploadVideo_part_001 cfg ev1 r1 w)))((s3Bucket cfg, s3Key2)
                \<mapsto> \<lparr>objBody = fileBytes file2, objContentType = ''video/mp4''\<rparr>)
         else s3 (after (handlerUploadVideo_part_001 cfg ev1 r1 w)))"
proof -
  let ?out1 = "handlerUploadVideo_part_001 cfg ev1 r1 w"
  let ?out2 = "handlerUploadVideo_part_001 cfg ev2 r2 (after ?out1)"
  let ?key = "\<lambda>ar k. aspectString ar @ ''/videos/'' @ EncodeToString k @ ''.mp4''"
  let ?url = "\<lambda>ar k. ''https://'' @ s3Bucket cfg @ ''.s3.'' @ s3Region cfg @ ''.amazonaws.com/''
      @ aspectString ar @ ''/videos/'' @ EncodeToString k @ ''.mp4''"
  let ?obj = "\<lambda>file. \<lparr>objBody = fileBytes file, objContentType = ''video/mp4''\<rparr>"
  from part_001_success [OF ok1] obtain videoID' video' file1 temp1 ar1 key' where
    o1: "uuid_Parse ev1 (pathVideoID r1) = Some videoID'" "GetVideo w videoID' = Some video'"
    "rand_Read ev1 = Some key'"
    "respBody ?out1 = URLBody (?url ar1 key')"
    "db (after ?out1) = (db w)(ID video' \<mapsto> video'\<lparr>VideoURL := Some (?url ar1 key')\<rparr>)"
    "FormFile_limited r1 ''video'' = Some file1"
    "CreateTemp_name ev1 = Some temp1" "getVideoAspectRatio ev1 temp1 = Inr ar1"
    "s3 (after ?out1) = (if PutObject_ok ev1 (s3Bucket cfg) (?key ar1 key')
        then (s3 w)((s3Bucket cfg, ?key ar1 key') \<mapsto> ?obj file1) else s3 w)"
    by blast
  from o1(1) id1 have i1: "videoID' = videoID" by simp
  from o1(2) rec(1) i1 have v1: "video' = video" by simp
  from o1(3) k1 have kk1: "key' = key1" by simp
  from o1(4) have b1: "respBody ?out1 = URLBody (?url ar1 key1)" unfolding kk1 .
  from o1(5) rec(2) have
    d1: "db (after ?out1) = (db w)(videoID \<mapsto> video\<lparr>VideoURL := Some (?url ar1 key1)\<rparr>)"
    unfolding i1 v1 kk1 by simp
  from o1(9) have s1: "s3 (after ?out1) = (if PutObject_ok ev1 (s3Bucket cfg) (?key ar1 key1)
        then (s3 w)((s3Bucket cfg, ?key ar1 key1) \<mapsto> ?obj file1) else s3 w)"
    unfolding kk1 .
  let ?video1 = "video\<lparr>VideoURL := Some (?url ar1 key1)\<rparr>"
  have rec2: "GetVideo (after ?out1) videoID = Some ?video1"
    using d1 by (simp add: GetVideo_def)
  from part_001_success [OF ok2] obtain videoID'' video'' file2 temp2 ar2 key'' where
    o2: "uuid_Parse ev2 (pathVideoID r2) = Some videoID''" "GetVideo (after ?out1) videoID'' = Some video''"
    "rand_Read ev2 = Some key''"
    "respBody ?out2 = URLBody (?url ar2 key'')"
    "db (after ?out2) = (db (after ?out1))(ID video'' \<mapsto> video''\<lparr>VideoURL := Some (?url ar2 key'')\<rparr>)"
    "FormFile_limited r2 ''video'' = Some file2"
    "CreateTemp_name ev2 = Some temp2" "getVideoAspectRatio ev2 temp2 = Inr ar2"
    "s3 (after ?out2) = (if PutObject_ok ev2 (s3Bucket cfg) (?key ar2 key'')
        then (s3 (after ?out1))((s3Bucket cfg, ?key ar2 key'') \<mapsto> ?obj file2)
        else s3 (after ?out1))"
    by blast
  from o2(1) id2 have i2: "videoID'' = videoID" by simp
  from o2(2) rec2 i2 have v2: "video'' = ?video1" by simp
  from o2(3) k2 have kk2: "key'' = key2" by simp
  from o2(4) have b2: "respBody ?out2 = URLBody (?url ar2 key2)" unfolding kk2 .
  from o2(5) rec(2) have
    d2: "db (after ?out2) = (db (after ?out1))(videoID \<mapsto> video\<lparr>VideoURL := Some (?url ar2 key2)\<rparr>)"
    unfolding i2 v2 kk2 by simp
  from o2(9) have s2: "s3 (after ?out2) = (if PutObject_ok ev2 (s3Bucket cfg) (?key ar2 key2)
        then (s3 (after ?out1))((s3Bucket cfg, ?key ar2 key2) \<mapsto> ?obj file2)
        else s3 (after ?out1))"
    unfolding kk2 .
  have "EncodeToString key1 \<noteq> EncodeToString key2"
    using ne EncodeToString_inj by blast
  then have ne: "?key ar1 key1 \<noteq> ?key ar2 key2"
    by (rule random_keys_distinct [OF aspectString_in aspectString_in])
  have e1: "db (after ?out1) videoID = Some ?video1"
    using d1 by simp
  have e2: "db (after ?out2) videoID = Some (video\<lparr>VideoURL := Some (?url ar2 key2)\<rparr>)"
    using d2 by simp
  from o1(6,7,8) o2(6,7,8) ne b1 b2 e1 e2 s1 s2 show ?thesis
    by (intro exI [of _ file1] exI [of _ file2] exI [of _ temp1] exI [of _ temp2]
        exI [of _ ar1] exI [of _ ar2]
        exI [of _ "?key ar1 key1"] exI [of _ "?key ar2 key2"] conjI refl)
qed

lemma handlerUploadVideo_two_uploads_stored:
  assumes ok1: "status (handlerUploadVideo cfg ev1 r1 w) = 200"
    and ok2: "status (handlerUploadVideo cfg ev2 r2 (after (handlerUploadVideo cfg ev1 r1 w))) = 200"
    and id1: "uuid_Parse ev1 (pathVideoID r1) = Some videoID"
    and id2: "uuid_Parse ev2 (pathVideoID r2) = Some videoID"
    and rec: "GetVideo w videoID = Some video" "ID video = videoID"
  shows "\<exists>temp1 temp2 ar1 ar2 processed1 processed2 s3Key1 s3Key2.
      CreateTemp_name ev1 = Some temp1 \<and> getVideoAspectRatio ev1 temp1 = Inr ar1
    \<and> CreateTemp_name ev2 = Some temp2 \<and> getVideoAspectRatio ev2 temp2 = Inr ar2
    \<and> ffmpeg ev1 [''-i'', temp1, ''-c'', ''copy'', ''-movflags'', ''faststart'', ''-f'', ''mp4'',
           take (length temp1 - 4) temp1 @ ''-faststart.mp4''] = Some processed1
    \<and> ffmpeg ev2 [''-i'', temp2, ''-c'', ''copy'', ''-movflags'', ''faststart'', ''-f'', ''mp4'',
           take (length temp2 - 4) temp2 @ ''-faststart.mp4''] = Some processed2
    \<and> s3Key1 = aspectString ar1 @ ''/'' @ videoID @ ''.mp4''
    \<and> s3Key2 = aspectString ar2 @ ''/'' @ videoID @ ''.mp4''
    \<and> s3 (after (handlerUploadVideo cfg ev1 r1 w)) =
        (s3 w)((s3Bucket cfg, s3Key1) \<mapsto> \<lparr>objBody = processed1, objContentType = ''video/mp4''\<rparr>)
    \<and> s3 (after (handlerUploadVideo cfg ev2 r2 (after (handlerUploadVideo cfg ev1 r1 w)))) =
        (s3 (after (handlerUploadVideo cfg ev1 r1 w)))((s3Bucket cfg, s3Key2)
           \<mapsto> \<lparr>objBody = processed2, objContentType = ''video/mp4''\<rparr>)
    \<and> respBody (handlerUploadVideo cfg ev1 r1 w) =
        VideoBody (video\<lparr>VideoURL := Some (''https://'' @ s3CfDistribution cfg @ ''/'' @ s3Key1)\<rparr>)
    \<and> respBody (handlerUploadVideo cfg ev2 r2 (after (handlerUploadVideo cfg ev1 r1 w))) =
        VideoBody (video\<lparr>VideoURL := Some (''https://'' @ s3CfDistribution cfg @ ''/'' @ s3Key2)\<rparr>)
    \<and> db (after (handlerUploadVideo cfg ev1 r1 w)) videoID =
        Some (video\<lparr>VideoURL := Some (''https://'' @ s3CfDistribution cfg @ ''/'' @ s3Key1)\<rparr>)
    \<and> db (after (handlerUploadVideo cfg ev2 r2 (after (handlerUploadVideo cfg ev1 r1 w)))) videoID =
        Some (video\<lparr>VideoURL := Some (''https://'' @ s3CfDistribution cfg @ ''/'' @ s3Key2)\<rparr>)
    \<and> (aspectString ar1 = aspectString ar2 \<longrightarrow>
          s3Key1 = s3Key2
        \<and> s3 (after (handlerUploadVideo cfg ev2 r2 (after (handlerUploadVideo cfg ev1 r1 w)))) =
            (s3 w)((s3Bucket cfg, s3Key1)
               \<mapsto> \<lparr>objBody = processed2, objContentType = ''video/mp4''\<rparr>))"
proof -
  let ?out1 = "handlerUploadVideo cfg ev1 r1 w"
  let ?out2 = "handlerUploadVideo cfg ev2 r2 (after ?out1)"
  let ?key = "\<lambda>ar v. aspectString ar @ ''/'' @ v @ ''.mp4''"
  let ?url = "\<lambda>ar v. ''https://'' @ s3CfDistribution cfg @ ''/'' @ aspectString ar @ ''/'' @ v @ ''.mp4''"
  let ?obj = "\<lambda>bs. \<lparr>objBody = bs, objContentType = ''video/mp4''\<rparr>"
  let ?args = "\<lambda>t. [''-i'', t, ''-c'', ''copy'', ''-movflags'', ''faststart'', ''-f'', ''mp4'',
           take (length t - 4) t @ ''-faststart.mp4'']"
  from handlerUploadVideo_success_stored [OF ok1] obtain videoID' video' temp1 ar1 processed1 where
    o1: "uuid_Parse ev1 (pathVideoID r1) = Some videoID'" "GetVideo w videoID' = Some video'"
    "CreateTemp_name ev1 = Some temp1" "getVideoAspectRatio ev1 temp1 = Inr ar1"
    "ffmpeg ev1 (?args temp1) = Some processed1"
    "s3 (after ?out1) = (s3 w)((s3Bucket cfg, ?key ar1 videoID') \<mapsto> ?obj processed1)"
    "respBody ?out1 = VideoBody (video'\<lparr>VideoURL := Some (?url ar1 videoID')\<rparr>)"
    "db (after ?out1) = (db w)(ID video' \<mapsto> video'\<lparr>VideoURL := Some (?url ar1 videoID')\<rparr>)"
    by blast
  from o1(1) id1 have i1: "videoID' = videoID" by simp
  from o1(2) rec(1) i1 have v1: "video' = video" by simp
  let ?video1 = "video\<lparr>VideoURL := Some (?url ar1 videoID)\<rparr>"
  from o1(6) have s1: "s3 (after ?out1) = (s3 w)((s3Bucket cfg, ?key ar1 videoID) \<mapsto> ?obj processed1)"
    unfolding i1 .
  from o1(7) have b1: "respBody ?out1 = VideoBody ?video1" unfolding i1 v1 .
  from o1(8) rec(2) have d1: "db (after ?out1) = (db w)(videoID \<mapsto> ?video1)"
    unfolding i1 v1 by simp
  have rec2: "GetVideo (after ?out1) videoID = Some ?video1"
    using d1 by (simp add: GetVideo_def)
  from handlerUploadVideo_success_stored [OF ok2] obtain videoID'' video'' temp2 ar2 processed2 where
    o2: "uuid_Parse ev2 (pathVideoID r2) = Some videoID''" "GetVideo (after ?out1) videoID'' = Some video''"
    "CreateTemp_name ev2 = Some temp2" "getVideoAspectRatio ev2 temp2 = Inr ar2"
    "ffmpeg ev2 (?args temp2) = Some processed2"
    "s3 (after ?out2) = (s3 (after ?out1))((s3Bucket cfg, ?key ar2 videoID'') \<mapsto> ?obj processed2)"
    "respBody ?out2 = VideoBody (video''\<lparr>VideoURL := Some (?url ar2 videoID'')\<rparr>)"
    "db (after ?out2) = (db (after ?out1))(ID video'' \<mapsto> video''\<lparr>VideoURL := Some (?url ar2 videoID'')\<rparr>)"
    by blast
  from o2(1) id2 have i2: "videoID'' = videoID" by simp
  from o2(2) rec2 i2 have v2: "video'' = ?video1" by simp
  let ?video2 = "video\<lparr>VideoURL := Some (?url ar2 videoID)\<rparr>"
  from o2(6) have s2: "s3 (after ?out2) = (s3 (after ?out1))((s3Bucket cfg, ?key ar2 videoID) \<mapsto> ?obj processed2)"
    unfolding i2 .
  from o2(7) have b2: "respBody ?out2 = VideoBody ?video2" unfolding i2 v2 by simp
  from o2(8) rec(2) have d2: "db (after ?out2) = (db (after ?out1))(videoID \<mapsto> ?video2)"
    unfolding i2 v2 by simp
  have e1: "db (after ?out1) videoID = Some ?video1" using d1 by simp
  have e2: "db (after ?out2) videoID = Some ?video2" using d2 by simp
  have same: "aspectString ar1 = aspectString ar2 \<longrightarrow>
      ?key ar1 videoID = ?key ar2 videoID
    \<and> s3 (after ?out2) = (s3 w)((s3Bucket cfg, ?key ar1 videoID) \<mapsto> ?obj processed2)"
    using s1 s2 by simp
  from o1(3,4,5) o2(3,4,5) s1 s2 b1 b2 e1 e2 same show ?thesis
    by (intro exI [of _ temp1] exI [of _ temp2] exI [of _ ar1] exI [of _ ar2]
        exI [of _ processed1] exI [of _ processed2]
        exI [of _ "?key ar1 videoID"] exI [of _ "?key ar2 videoID"] conjI refl)
qed

text \<open>
  C8, as the code has it: for two successful uploads against the same video identifier,
  the second on the state the first left, the record's video URL afterwards is the URL of
  the second upload and the response of the second upload carries it. In
  \<^verbatim>\<open>src/unnamed/part_001\<close> the key of each upload is
  \<^verbatim>\<open>{aspect}/videos/{randomName}.mp4\<close>; the two keys and the two URLs are distinct whenever
  the two draws of random bytes differ, and each uploaded file is in the object store
  under its key exactly when its \<^verbatim>\<open>PutObject\<close> succeeded, the first object staying where
  it is. In \<^verbatim>\<open>src/handler_upload_video.go\<close> the key of each upload is
  \<^verbatim>\<open>{aspect}/{videoID}.mp4\<close>, the bytes ffmpeg wrote for that upload are stored under it,
  and when the two aspects agree the two keys are one key and the second object replaces
  the first.
\<close>

theorem two_uploads_same_video:
  assumes id1: "uuid_Parse ev1 (pathVideoID r1) = Some videoID"
    and id2: "uuid_Parse ev2 (pathVideoID r2) = Some videoID"
    and rec: "GetVideo w videoID = Some video" "ID video = videoID"
  shows "(status (handlerUploadVideo_part_001 cfg ev1 r1 w) = 200
      \<and> status (handlerUploadVideo_part_001 cfg ev2 r2
            (after (handlerUploadVideo_part_001 cfg ev1 r1 w))) = 200
      \<and> rand_Read ev1 = Some key1 \<and> rand_Read ev2 = Some key2 \<and> key1 \<noteq> key2
     \<longrightarrow> (\<exists>file1 file2 temp1 temp2 ar1 ar2 s3Key1 s3Key2.
            FormFile_limited r1 ''video'' = Some file1
          \<and> FormFile_limited r2 ''video'' = Some file2
          \<and> CreateTemp_name ev1 = Some temp1 \<and> getVideoAspectRatio ev1 temp1 = Inr ar1
          \<and> CreateTemp_name ev2 = Some temp2 \<and> getVideoAspectRatio ev2 temp2 = Inr ar2
          \<and> s3Key1 = aspectString ar1 @ ''/videos/'' @ EncodeToString key1 @ ''.mp4''
          \<and> s3Key2 = aspectString ar2 @ ''/videos/'' @ EncodeToString key2 @ ''.mp4''
          \<and> s3Key1 \<noteq> s3Key2
          \<and> respBody (handlerUploadVideo_part_001 cfg ev1 r1 w) =
              URLBody (''https://'' @ s3Bucket cfg @ ''.s3.'' @ s3Region cfg @ ''.amazonaws.com/'' @ s3Key1)
          \<and> respBody (handlerUploadVideo_part_001 cfg ev2 r2
                (after (handlerUploadVideo_part_001 cfg ev1 r1 w))) =
              URLBody (''https://'' @ s3Bucket cfg @ ''.s3.'' @ s3Region cfg @ ''.amazonaws.com/'' @ s3Key2)
          \<and> db (after (handlerUploadVideo_part_001 cfg ev1 r1 w)) videoID =
              Some (video\<lparr>VideoURL := Some (''https://'' @ s3Bucket cfg @ ''.s3.'' @ s3Region cfg
                       @ ''.amazonaws.com/'' @ s3Key1)\<rparr>)
          \<and> db (after (handlerUploadVideo_part_001 cfg ev2 r2
                (after (handlerUploadVideo_part_001 cfg ev1 r1 w)))) videoID =
              Some (video\<lparr>VideoURL := Some (''https://'' @ s3Bucket cfg @ ''.s3.'' @ s3Region cfg
                       @ ''.amazonaws.com/'' @ s3Key2)\<rparr>)
          \<and> s3 (after (handlerUploadVideo_part_001 cfg ev1 r1 w)) =
              (if PutObject_ok ev1 (s3Bucket cfg) s3Key1
               then (s3 w)((s3Bucket cfg, s3Key1)
                      \<mapsto> \<lparr>objBody = fileBytes file1, objContentType = ''video/mp4''\<rparr>)
               else s3 w)
          \<and> s3 (after (handlerUploadVideo_part_001 cfg ev2 r2
                (after (handlerUploadVideo_part_001 cfg ev1 r1 w)))) =
              (if PutObject_ok ev2 (s3Bucket cfg) s3Key2
               then (s3 (after (handlerUploadVideo_part_001 cfg ev1 r1 w)))((s3Bucket cfg, s3Key2)
                      \<mapsto> \<lparr>objBody = fileBytes file2, objContentType = ''video/mp4''\<rparr>)
               else s3 (after (handlerUploadVideo_part_001 cfg ev1 r1 w)))))
   \<and> (status (handlerUploadVideo cfg ev1 r1 w) = 200
      \<and> status (handlerUploadVideo cfg ev2 r2 (after (handlerUploadVideo cfg ev1 r1 w))) = 200
     \<longrightarrow> (\<exists>temp1 temp2 ar1 ar2 processed1 processed2 s3Key1 s3Key2.
            CreateTemp_name ev1 = Some temp1 \<and> getVideoAspectRatio ev1 temp1 = Inr ar1
          \<and> CreateTemp_name ev2 = Some temp2 \<and> getVideoAspectRatio ev2 temp2 = Inr ar2
          \<and> ffmpeg ev1 [''-i'', temp1, ''-c'', ''copy'', ''-movflags'', ''faststart'', ''-f'', ''mp4'',
                 take (length temp1 - 4) temp1 @ ''-faststart.mp4''] = Some processed1
          \<and> ffmpeg ev2 [''-i'', temp2, ''-c'', ''copy'', ''-movflags'', ''faststart'', ''-f'', ''mp4'',
                 take (length temp2 - 4) temp2 @ ''-faststart.mp4''] = Some processed2
          \<and> s3Key1 = aspectString ar1 @ ''/'' @ videoID @ ''.mp4''
          \<and> s3Key2 = aspectString ar2 @ ''/'' @ videoID @ ''.mp4''
          \<and> s3 (after (handlerUploadVideo cfg ev1 r1 w)) =
              (s3 w)((s3Bucket cfg, s3Key1) \<mapsto> \<lparr>objBody = processed1, objContentType = ''video/mp4''\<rparr>)
          \<and> s3 (after (handlerUploadVideo cfg ev2 r2 (after (handlerUploadVideo cfg ev1 r1 w)))) =
              (s3 (after (handlerUploadVideo cfg ev1 r1 w)))((s3Bucket cfg, s3Key2)
                 \<mapsto> \<lparr>objBody = processed2, objContentType = ''video/mp4''\<rparr>)
          \<and> respBody (handlerUploadVideo cfg ev1 r1 w) =
              VideoBody (video\<lparr>VideoURL := Some (''https://'' @ s3CfDistribution cfg @ ''/'' @ s3Key1)\<rparr>)
          \<and> respBody (handlerUploadVideo cfg ev2 r2 (after (handlerUploadVideo cfg ev1 r1 w))) =
              VideoBody (video\<lparr>VideoURL := Some (''https://'' @ s3CfDistribution cfg @ ''/'' @ s3Key2)\<rparr>)
          \<and> db (after (handlerUploadVideo cfg ev1 r1 w)) videoID =
              Some (video\<lparr>VideoURL := Some (''https://'' @ s3CfDistribution cfg @ ''/'' @ s3Key1)\<rparr>)
          \<and> db (after (handlerUploadVideo cfg ev2 r2 (after (handlerUploadVideo cfg ev1 r1 w)))) videoID =
              Some (video\<lparr>VideoURL := Some (''https://'' @ s3CfDistribution cfg @ ''/'' @ s3Key2)\<rparr>)
          \<and> (aspectString ar1 = aspectString ar2 \<longrightarrow>
                s3Key1 = s3Key2
              \<and> s3 (after (handlerUploadVideo cfg ev2 r2 (after (handlerUploadVideo cfg ev1 r1 w)))) =
                  (s3 w)((s3Bucket cfg, s3Key1)
                     \<mapsto> \<lparr>objBody = processed2, objContentType = ''video/mp4''\<rparr>))))"
    (is "(?PB \<longrightarrow> ?QB) \<and> (?PA \<longrightarrow> ?QA)")
proof (intro conjI impI)
  assume p: ?PB
  show ?QB
    by (rule part_001_two_uploads_stored [OF p [THEN conjunct1] p [THEN conjunct2, THEN conjunct1]
          id1 id2 rec p [THEN conjunct2, THEN conjunct2, THEN conjunct1]
          p [THEN conjunct2, THEN conjunct2, THEN conjunct2, THEN conjunct1]
          p [THEN conjunct2, THEN conjunct2, THEN conjunct2, THEN conjunct2]])
next
  assume p: ?PA
  show ?QA
    by (rule handlerUploadVideo_two_uploads_stored [OF p [THEN conjunct1] p [THEN conjunct2]
          id1 id2 rec])
qed

lemma other_name: "EncodeToString other_key = ''AAAAAAAAAAAAAAAAAAAAAAAAAAAAAAAAAAAAAAAAAAE''"
  by (simp add: other_key_def encodeURL_def)

lemma sample_aspect_rand: "getVideoAspectRatio (sample_env\<lparr>rand_Read := k\<rparr>) p = Inr ''16:9''"
  using sample_aspect' [of p] by (simp add: getVideoAspectRatio_def sample_env_def)

text \<open>The theorem at two uploads by the owner with different random bytes.\<close>

theorem two_uploads_same_video_witness:
  "\<exists>s3Key1 s3Key2.
      s3Key1 \<noteq> s3Key2
    \<and> respBody (handlerUploadVideo_part_001 sample_cfg sample_env (video_request ''alice-token'')
          sample_world) =
        URLBody (''https://'' @ s3Bucket sample_cfg @ ''.s3.'' @ s3Region sample_cfg
                 @ ''.amazonaws.com/'' @ s3Key1)
    \<and> db (after (handlerUploadVideo_part_001 sample_cfg (sample_env\<lparr>rand_Read := Some other_key\<rparr>)
          (video_request ''alice-token'')
          (after (handlerUploadVideo_part_001 sample_cfg sample_env (video_request ''alice-token'')
             sample_world)))) vid =
        Some (sample_video\<lparr>VideoURL := Some (''https://'' @ s3Bucket sample_cfg @ ''.s3.''
                 @ s3Region sample_cfg @ ''.amazonaws.com/'' @ s3Key2)\<rparr>)
    \<and> s3 (after (handlerUploadVideo_part_001 sample_cfg (sample_env\<lparr>rand_Read := Some other_key\<rparr>)
          (video_request ''alice-token'')
          (after (handlerUploadVideo_part_001 sample_cfg sample_env (video_request ''alice-token'')
             sample_world)))) =
        [(s3Bucket sample_cfg, s3Key1) \<mapsto> \<lparr>objBody = [7, 8, 9], objContentType = ''video/mp4''\<rparr>,
         (s3Bucket sample_cfg, s3Key2) \<mapsto> \<lparr>objBody = [7, 8, 9], objContentType = ''video/mp4''\<rparr>]"
proof -
  let ?ev2 = "sample_env\<lparr>rand_Read := Some other_key\<rparr>"
  let ?r = "video_request ''alice-token''"
  let ?out1 = "handlerUploadVideo_part_001 sample_cfg sample_env ?r sample_world"
  let ?out2 = "handlerUploadVideo_part_001 sample_cfg ?ev2 ?r (after ?out1)"
  have id1: "uuid_Parse sample_env (pathVideoID ?r) = Some vid"
    and id2: "uuid_Parse ?ev2 (pathVideoID ?r) = Some vid"
    and rec: "GetVideo sample_world vid = Some sample_video" "ID sample_video = vid"
    and k: "rand_Read sample_env = Some sample_key" "rand_Read ?ev2 = Some other_key"
      "sample_key \<noteq> other_key"
    by (simp_all add: sample_defs GetVideo_def sample_key_def other_key_def)
  have ok1: "status ?out1 = 200"
    by (rule sample_part_001_ok)
  have ok2: "status ?out2 = 200"
    using sample_aspect' sample_aspect_rand [of "Some other_key"] sample_name other_name
    by (simp add: video_defs store_defs respond_defs status_defs sample_defs aspectString_def Let_def)
  have put: "\<And>key. PutObject_ok sample_env (s3Bucket sample_cfg) key"
    "\<And>key. PutObject_ok ?ev2 (s3Bucket sample_cfg) key"
    and fl: "FormFile_limited ?r ''video'' = Some \<lparr>fileBytes = [7, 8, 9], contentType = ''video/mp4''\<rparr>"
    and empty: "s3 sample_world = Map.empty"
    by (simp_all add: sample_defs FormFile_limited_def maxUploadSize_def)
  from two_uploads_same_video [OF id1 id2 rec, of sample_cfg sample_key other_key] ok1 ok2 k
  obtain file1 file2 s3Key1 s3Key2 where
    f: "FormFile_limited ?r ''video'' = Some file1" "FormFile_limited ?r ''video'' = Some file2"
    and n: "s3Key1 \<noteq> s3Key2"
    and b: "respBody ?out1 = URLBody (''https://'' @ s3Bucket sample_cfg @ ''.s3.''
        @ s3Region sample_cfg @ ''.amazonaws.com/'' @ s3Key1)"
    and d: "db (after ?out2) vid = Some (sample_video\<lparr>VideoURL := Some (''https://''
        @ s3Bucket sample_cfg @ ''.s3.'' @ s3Region sample_cfg @ ''.amazonaws.com/'' @ s3Key2)\<rparr>)"
    and s1: "s3 (after ?out1) =
        (if PutObject_ok sample_env (s3Bucket sample_cfg) s3Key1
         then (s3 sample_world)((s3Bucket sample_cfg, s3Key1)
                \<mapsto> \<lparr>objBody = fileBytes file1, objContentType = ''video/mp4''\<rparr>)
         else s3 sample_world)"
    and s2: "s3 (after ?out2) =
        (if PutObject_ok ?ev2 (s3Bucket sample_cfg) s3Key2
         then (s3 (after ?out1))((s3Bucket sample_cfg, s3Key2)
                \<mapsto> \<lparr>objBody = fileBytes file2, objContentType = ''video/mp4''\<rparr>)
         else s3 (after ?out1))"
    by blast
  from f fl have fb: "fileBytes file1 = [7, 8, 9]" "fileBytes file2 = [7, 8, 9]" by auto
  have "s3 (after ?out2) =
        [(s3Bucket sample_cfg, s3Key1) \<mapsto> \<lparr>objBody = [7, 8, 9], objContentType = ''video/mp4''\<rparr>,
         (s3Bucket sample_cfg, s3Key2) \<mapsto> \<lparr>objBody = [7, 8, 9], objContentType = ''video/mp4''\<rparr>]"
    unfolding s2 s1 by (simp only: put if_True empty fb)
  with n b d show ?thesis by blast
qed

text \<open>
  C8 as stated fails: two successful uploads of the same video by
  \<^verbatim>\<open>src/handler_upload_video.go\<close> store under one and the same key, and the URL in the
  record after the second upload is the URL it had after the first.
\<close>

theorem deterministic_key_repeats:
  "status (handlerUploadVideo sample_cfg sample_env (video_request ''alice-token'') sample_world) = 200
   \<and> status (handlerUploadVideo sample_cfg sample_env (video_request ''alice-token'')
        (after (handlerUploadVideo sample_cfg sample_env (video_request ''alice-token'')
           sample_world))) = 200
   \<and> s3 (after (handlerUploadVideo sample_cfg sample_env (video_request ''alice-token'')
        sample_world)) =
       [(''tubely'', ''landscape/aaaaaaaa-aaaa-aaaa-aaaa-aaaaaaaaaaaa.mp4'')
          \<mapsto> \<lparr>objBody = [1, 2, 3], objContentType = ''video/mp4''\<rparr>]
   \<and> s3 (after (handlerUploadVideo sample_cfg sample_env (video_request ''alice-token'')
        (after (handlerUploadVideo sample_cfg sample_env (video_request ''alice-token'')
           sample_world)))) =
       [(''tubely'', ''landscape/aaaaaaaa-aaaa-aaaa-aaaa-aaaaaaaaaaaa.mp4'')
          \<mapsto> \<lparr>objBody = [1, 2, 3], objContentType = ''video/mp4''\<rparr>]
   \<and> db (after (handlerUploadVideo sample_cfg sample_env (video_request ''alice-token'')
        sample_world)) vid =
       Some (sample_video\<lparr>VideoURL := Some
         ''https://cdn.example.com/landscape/aaaaaaaa-aaaa-aaaa-aaaa-aaaaaaaaaaaa.mp4''\<rparr>)
   \<and> db (after (handlerUploadVideo sample_cfg sample_env (video_request ''alice-token'')
        (after (handlerUploadVideo sample_cfg sample_env (video_request ''alice-token'')
           sample_world)))) vid =
       Some (sample_video\<lparr>VideoURL := Some
         ''https://cdn.example.com/landscape/aaaaaaaa-aaaa-aaaa-aaaa-aaaaaaaaaaaa.mp4''\<rparr>)"
  using sample_aspect'
  by (simp add: video_defs store_defs respond_defs status_defs sample_defs aspectString_def Let_def)

text \<open>
  What the thumbnail handler does with the declared content type: it decides on the first
  extension that \<^verbatim>\<open>mime.ExtensionsByType\<close> gives for it. When that extension is \<^verbatim>\<open>.jpg\<close> or
  \<^verbatim>\<open>.png\<close> and every other check passes, the handler succeeds and the record's thumbnail
  URL is \<^verbatim>\<open>http://localhost:{port}/assets/{randomName}{ext}\<close>; when the form decodes to no
  such extension, the handler answers 400 and changes nothing.
\<close>

lemma thumbnail_first_extension:
  assumes "uuid_Parse ev (pathVideoID r) = Some videoID"
    and "GetBearerToken ev (header r) = Some token"
    and "ValidateJWT ev token (jwtSecret cfg) = Some userID"
  shows "(form r = Some fm \<and> fm ''thumbnail'' = Some file
      \<and> ExtensionsByType ev (contentType file) = Some (ext # rest)
      \<and> (ext = ''.jpg'' \<or> ext = ''.png'')
      \<and> GetVideo w videoID = Some video \<and> UserID video = userID
      \<and> rand_Read ev = Some key
      \<and> os_Create_ok ev (filepath_Join ev (assetsRoot cfg) (EncodeToString key @ ext))
      \<and> io_Copy_fails_after ev = None
      \<and> UpdateVideo_ok ev (video\<lparr>ThumbnailURL :=
            Some (''http://localhost:'' @ port cfg @ ''/assets/'' @ EncodeToString key @ ext)\<rparr>)
     \<longrightarrow> status (handlerUploadThumbnail cfg ev r w) = 200
       \<and> respBody (handlerUploadThumbnail cfg ev r w) = VideoBody (video\<lparr>ThumbnailURL :=
            Some (''http://localhost:'' @ port cfg @ ''/assets/'' @ EncodeToString key @ ext)\<rparr>)
       \<and> db (after (handlerUploadThumbnail cfg ev r w)) = (db w)(ID video \<mapsto> video\<lparr>ThumbnailURL :=
            Some (''http://localhost:'' @ port cfg @ ''/assets/'' @ EncodeToString key @ ext)\<rparr>))
   \<and> (\<not> thumbnail_checks_pass ev r
     \<longrightarrow> status (handlerUploadThumbnail cfg ev r w) = 400
       \<and> after (handlerUploadThumbnail cfg ev r w) = w)"
  using assms
  by (auto simp: thumbnail_defs store_defs respond_defs status_defs Let_def
      split: option.splits list.splits)

text \<open>The owner's uploads of a PNG and of a GIF.\<close>

lemma thumbnail_first_extension_example:
  "status (handlerUploadThumbnail sample_cfg sample_env
      (thumbnail_request ''alice-token'' ''image/png'') sample_world) = 200
   \<and> db (after (handlerUploadThumbnail sample_cfg sample_env
      (thumbnail_request ''alice-token'' ''image/png'') sample_world)) vid =
       Some (sample_video\<lparr>ThumbnailURL := Some
         ''http://localhost:8091/assets/AAAAAAAAAAAAAAAAAAAAAAAAAAAAAAAAAAAAAAAAAAA.png''\<rparr>)
   \<and> status (handlerUploadThumbnail sample_cfg sample_env
      (thumbnail_request ''alice-token'' ''image/gif'') sample_world) = 400
   \<and> after (handlerUploadThumbnail sample_cfg sample_env
      (thumbnail_request ''alice-token'' ''image/gif'') sample_world) = sample_world"
proof -
  let ?png = "thumbnail_request ''alice-token'' ''image/png''"
  let ?gif = "thumbnail_request ''alice-token'' ''image/gif''"
  let ?file = "\<lparr>fileBytes = [4, 5, 6], contentType = ''image/png''\<rparr>"
  let ?fm = "[''thumbnail'' \<mapsto> ?file]"
  have a: "uuid_Parse sample_env (pathVideoID ?png) = Some vid"
    "GetBearerToken sample_env (header ?png) = Some ''alice-token''"
    "ValidateJWT sample_env ''alice-token'' (jwtSecret sample_cfg) = Some alice"
    and a': "uuid_Parse sample_env (pathVideoID ?gif) = Some vid"
    "GetBearerToken sample_env (header ?gif) = Some ''alice-token''"
    by (simp_all add: sample_defs)
  have b: "form ?png = Some ?fm" "?fm ''thumbnail'' = Some ?file"
    "ExtensionsByType sample_env (contentType ?file) = Some (''.png'' # [])"
    "GetVideo sample_world vid = Some sample_video" "UserID sample_video = alice"
    "rand_Read sample_env = Some sample_key"
    "os_Create_ok sample_env (filepath_Join sample_env (assetsRoot sample_cfg)
        (EncodeToString sample_key @ ''.png''))"
    "io_Copy_fails_after sample_env = None"
    "UpdateVideo_ok sample_env (sample_video\<lparr>ThumbnailURL :=
       Some (''http://localhost:'' @ port sample_cfg @ ''/assets/'' @ EncodeToString sample_key @ ''.png'')\<rparr>)"
    by (simp_all add: sample_defs GetVideo_def)
  have c: "\<not> thumbnail_checks_pass sample_env ?gif"
    by (simp add: thumbnail_checks_pass_def sample_defs)
  from thumbnail_first_extension [OF a, of ?fm ?file "''.png''" "[]" sample_world sample_video sample_key] b
    thumbnail_first_extension [OF a'(1,2) a(3), of _ _ _ _ sample_world] c sample_name
  show ?thesis
    by (simp add: sample_cfg_def sample_world_def sample_video_def vid_def)
qed

text \<open>
  With the table Go's \<^verbatim>\<open>mime\<close> package starts from, the owner's thumbnail upload succeeds
  for the content type \<^verbatim>\<open>image/png\<close> and for no other.
\<close>

lemma thumbnail_builtin_table_only_png:
  "status (handlerUploadThumbnail sample_cfg sample_env
      (thumbnail_request ''alice-token'' ctype) sample_world) = 200 \<longleftrightarrow> ctype = ''image/png''"
  by (simp add: thumbnail_defs store_defs respond_defs status_defs sample_defs Let_def)

text \<open>
  C3: a thumbnail upload with the declared content type \<^verbatim>\<open>image/jpeg\<close> is to succeed. The
  handler tests the extension against \<^verbatim>\<open>.jpg\<close> and \<^verbatim>\<open>.png\<close>, but the extension it tests is
  the first of the sorted list that \<^verbatim>\<open>mime.ExtensionsByType\<close> returns, and for
  \<^verbatim>\<open>image/jpeg\<close> that list has \<^verbatim>\<open>.jpeg\<close> before \<^verbatim>\<open>.jpg\<close>: the owner's upload of a JPEG
  thumbnail is answered with 400 and the record stays as it was, while the same upload
  declared as \<^verbatim>\<open>image/png\<close> is answered with 200.
\<close>

theorem thumbnail_jpeg_rejected:
  "ExtensionsByType sample_env ''image/jpeg'' = Some [''.jpeg'', ''.jpg'']
   \<and> status (handlerUploadThumbnail sample_cfg sample_env
        (thumbnail_request ''alice-token'' ''image/jpeg'') sample_world) = 400
   \<and> after (handlerUploadThumbnail sample_cfg sample_env
        (thumbnail_request ''alice-token'' ''image/jpeg'') sample_world) = sample_world
   \<and> status (handlerUploadThumbnail sample_cfg sample_env
        (thumbnail_request ''alice-token'' ''image/png'') sample_world) = 200"
  by (simp add: thumbnail_defs store_defs respond_defs status_defs sample_defs Let_def)

section \<open>Claims about the aspect classification\<close>

text \<open>
  The exponent that \<open>ilog2\<close> computes is the binary exponent of its argument, and
  rounding to the nearest integer moves a number by at most one half.
\<close>

lemma bitlen_lower: "0 < p \<Longrightarrow> (2::rat) powi (bitlen p - 1) \<le> of_int p"
proof -
  assume p: "0 < p"
  then have b: "2 ^ nat (bitlen p - 1) \<le> p" and ge: "0 \<le> bitlen p - 1"
    using bitlen_bounds [of p] bitlen_ge_iff_power [of 1 p] by auto
  from b have "(of_int (2 ^ nat (bitlen p - 1)) :: rat) \<le> of_int p"
    by (simp only: of_int_le_iff)
  then show ?thesis using ge by (simp add: power_int_nonneg_exp)
qed

lemma bitlen_upper: "0 < p \<Longrightarrow> of_int p < (2::rat) powi (bitlen p)"
proof -
  assume p: "0 < p"
  then have b: "p < 2 ^ nat (bitlen p)" and ge: "0 \<le> bitlen p"
    using bitlen_bounds [of p] bitlen_nonneg [of p] by auto
  from b have "(of_int p :: rat) < of_int (2 ^ nat (bitlen p))"
    by (simp only: of_int_less_iff)
  then show ?thesis using ge by (simp add: power_int_nonneg_exp)
qed

lemma ilog2_bounds:
  assumes "0 < x"
  shows "2 powi (ilog2 x) \<le> x" and "x < 2 powi (ilog2 x + 1)"
proof -
  obtain p q where pq: "quotient_of x = (p, q)" by (cases "quotient_of x")
  then have q: "0 < q" and x: "x = of_int p / of_int q"
    using quotient_of_denom_pos [OF pq] quotient_of_div [OF pq] by simp_all
  from assms q x have p: "0 < p"
    by (simp add: zero_less_divide_iff)
  let ?k = "bitlen p - bitlen q"
  have qr: "(0::rat) < of_int q" using q by simp
  have low: "2 powi (?k - 1) \<le> x"
  proof -
    have "(2::rat) powi (?k - 1) * of_int q \<le> 2 powi (?k - 1) * 2 powi (bitlen q)"
      using bitlen_upper [OF q] by (intro mult_left_mono) simp_all
    also have "\<dots> = 2 powi (bitlen p - 1)"
      by (simp add: power_int_add [symmetric])
    also have "\<dots> \<le> of_int p" by (rule bitlen_lower [OF p])
    finally show ?thesis using qr by (simp add: x pos_le_divide_eq)
  qed
  have up: "x < 2 powi (?k + 1)"
  proof -
    have "of_int p < (2::rat) powi (bitlen p)" by (rule bitlen_upper [OF p])
    also have "\<dots> = 2 powi (?k + 1) * 2 powi (bitlen q - 1)"
      by (simp add: power_int_add [symmetric])
    also have "\<dots> \<le> 2 powi (?k + 1) * of_int q"
      using bitlen_lower [OF q] by (intro mult_left_mono) simp_all
    finally show ?thesis using qr by (simp add: x pos_divide_less_eq)
  qed
  show "2 powi (ilog2 x) \<le> x"
    using low by (simp add: ilog2_def pq Let_def)
  show "x < 2 powi (ilog2 x + 1)"
    using up by (auto simp: ilog2_def pq Let_def not_le)
qed

lemma round_ties_even_error: "\<bar>of_int (round_ties_even z) - z\<bar> \<le> 1 / 2"
proof -
  have "of_int \<lfloor>z\<rfloor> \<le> z" "z < of_int \<lfloor>z\<rfloor> + 1" by linarith+
  then show ?thesis
    by (auto simp: round_ties_even_def Let_def)
qed

text \<open>
  The error of one rounding: at most the fraction \<open>1 / 2 ^ 53\<close> of the magnitude in the
  normal range, and below \<open>1 / 2 ^ 100\<close> in the subnormal range; magnitudes up to
  \<open>2 ^ 100\<close> round to a finite value.
\<close>

lemma round64_core:
  fixes x :: rat
  assumes nz: "x \<noteq> 0"
  defines "u \<equiv> 2 powi (max (ilog2 \<bar>x\<bar>) (- 1022) - 52)"
  defines "y \<equiv> of_int (round_ties_even (\<bar>x\<bar> / u)) * u"
  shows "\<bar>y - \<bar>x\<bar>\<bar> \<le> \<bar>x\<bar> / 2 ^ 53 + 1 / 2 ^ 100"
    and "round64 x = (if 2 powi 1024 \<le> y then (if 0 < x then PInf else NInf)
                      else Fin (sgn x * y))"
proof -
  have u_pos: "0 < u" by (simp add: u_def)
  have "(of_int (round_ties_even (\<bar>x\<bar> / u)) - \<bar>x\<bar> / u) * u = y - \<bar>x\<bar>"
    using u_pos by (simp add: y_def left_diff_distrib)
  then have "\<bar>y - \<bar>x\<bar>\<bar> = \<bar>(of_int (round_ties_even (\<bar>x\<bar> / u)) - \<bar>x\<bar> / u) * u\<bar>"
    by simp
  also have "\<dots> = \<bar>of_int (round_ties_even (\<bar>x\<bar> / u)) - \<bar>x\<bar> / u\<bar> * u"
    using u_pos by (simp add: abs_mult)
  also have "\<dots> \<le> 1 / 2 * u"
    using u_pos round_ties_even_error [of "\<bar>x\<bar> / u"] by (intro mult_right_mono) simp_all
  finally have half: "\<bar>y - \<bar>x\<bar>\<bar> \<le> u / 2" by simp
  have "u / 2 \<le> \<bar>x\<bar> / 2 ^ 53 + 1 / 2 ^ 100"
  proof (cases "- 1022 \<le> ilog2 \<bar>x\<bar>")
    case True
    then have "u = 2 powi (ilog2 \<bar>x\<bar>) / 2 ^ 52"
      by (simp add: u_def max_def power_int_diff)
    also have "\<dots> \<le> \<bar>x\<bar> / 2 ^ 52"
      using ilog2_bounds(1) [of "\<bar>x\<bar>"] nz by (intro divide_right_mono) simp_all
    finally have "u / 2 \<le> \<bar>x\<bar> / 2 ^ 53" by simp
    then show ?thesis by simp
  next
    case False
    then have "u = 2 powi (- 1074)" by (simp add: u_def max_def)
    then have "u / 2 \<le> 1 / 2 ^ 100" by (simp add: power_int_minus_divide)
    moreover have "0 \<le> \<bar>x\<bar> / 2 ^ 53" by simp
    ultimately show ?thesis by linarith
  qed
  with half show "\<bar>y - \<bar>x\<bar>\<bar> \<le> \<bar>x\<bar> / 2 ^ 53 + 1 / 2 ^ 100" by linarith
  show "round64 x = (if 2 powi 1024 \<le> y then (if 0 < x then PInf else NInf)
                      else Fin (sgn x * y))"
    using nz by (simp add: round64_def Let_def u_def y_def)
qed

lemma round64_error:
  assumes "round64 x = Fin z"
  shows "\<bar>z - x\<bar> \<le> \<bar>x\<bar> / 2 ^ 53 + 1 / 2 ^ 100"
proof (cases "x = 0")
  case True
  with assms show ?thesis by (simp add: round64_def)
next
  case False
  define y :: rat where "y = of_int (round_ties_even (\<bar>x\<bar> / 2 powi (max (ilog2 \<bar>x\<bar>) (- 1022) - 52)))
      * 2 powi (max (ilog2 \<bar>x\<bar>) (- 1022) - 52)"
  from round64_core [OF False] have
    e: "\<bar>y - \<bar>x\<bar>\<bar> \<le> \<bar>x\<bar> / 2 ^ 53 + 1 / 2 ^ 100"
    and r: "round64 x = (if 2 powi 1024 \<le> y then (if 0 < x then PInf else NInf)
                      else Fin (sgn x * y))"
    unfolding y_def by simp_all
  from r assms have z: "z = sgn x * y"
    by (auto split: if_splits)
  have "\<bar>z - x\<bar> = \<bar>sgn x * (y - \<bar>x\<bar>)\<bar>"
    by (simp add: z right_diff_distrib sgn_mult_abs)
  also have "\<dots> = \<bar>y - \<bar>x\<bar>\<bar>"
    using False by (simp add: abs_mult abs_sgn_eq)
  finally show ?thesis using e by simp
qed

lemma round64_finite:
  assumes "\<bar>x\<bar> \<le> 2 ^ 100"
  shows "\<exists>z. round64 x = Fin z"
proof (cases "x = 0")
  case True
  then show ?thesis by (simp add: round64_def)
next
  case False
  define y :: rat where "y = of_int (round_ties_even (\<bar>x\<bar> / 2 powi (max (ilog2 \<bar>x\<bar>) (- 1022) - 52)))
      * 2 powi (max (ilog2 \<bar>x\<bar>) (- 1022) - 52)"
  from round64_core [OF False] have
    e: "\<bar>y - \<bar>x\<bar>\<bar> \<le> \<bar>x\<bar> / 2 ^ 53 + 1 / 2 ^ 100"
    and r: "round64 x = (if 2 powi 1024 \<le> y then (if 0 < x then PInf else NInf)
                      else Fin (sgn x * y))"
    unfolding y_def by simp_all
  have "\<bar>x\<bar> / 2 ^ 53 \<le> 2 ^ 100 / 2 ^ 53"
    using assms by (intro divide_right_mono) simp_all
  with e assms have "y \<le> 2 ^ 100 + 2 ^ 100 / 2 ^ 53 + 1 / 2 ^ 100"
    by linarith
  also have "\<dots> < (2::rat) powi 1024" by simp
  finally have "\<not> 2 powi 1024 \<le> y" by simp
  with r show ?thesis by simp
qed

text \<open>Ties go to the even significand, as the hardware rounds them.\<close>

lemma round64_examples:
  "round64 (2 ^ 53 + 1) = Fin (2 ^ 53)"
  "round64 (2 ^ 53 + 3) = Fin (2 ^ 53 + 4)"
  "round64 (1 / 3) = Fin (6004799503160661 / 18014398509481984)"
  by code_simp+

text \<open>
  The quotient of two rounded integers, rounded again, is within the fraction
  \<open>1 / 2 ^ 50\<close> of the exact quotient, for every width and positive height of 64 bits.
\<close>

lemma quotient_error:
  fixes a b w h dl et :: rat
  assumes h: "1 \<le> h" and dl: "0 \<le> dl" and et: "0 \<le> et" and bnz: "b \<noteq> 0"
    and a: "\<bar>a - w\<bar> \<le> \<bar>w\<bar> * dl + et"
    and b: "\<bar>b - h\<bar> \<le> h * dl + et"
  shows "\<bar>a / b - w / h\<bar> \<le> \<bar>w / h\<bar> * dl + et + (dl + et) * \<bar>a / b\<bar>"
proof -
  define q where "q = a / b"
  define x where "x = w / h"
  have hpos: "0 < h" using h by simp
  have qb: "q * b = a" using bnz by (simp add: q_def)
  have xh: "x * h = w" using hpos by (simp add: x_def)
  have "(q - x) * h = q * h - w" by (simp add: left_diff_distrib xh)
  also have "\<dots> = q * (h - b) + (a - w)" by (simp add: right_diff_distrib qb)
  finally have eq: "(q - x) * h = q * (h - b) + (a - w)" .
  have "\<bar>q - x\<bar> * h = \<bar>(q - x) * h\<bar>" using hpos by (simp add: abs_mult)
  also have "\<dots> \<le> \<bar>q * (h - b)\<bar> + \<bar>a - w\<bar>" unfolding eq by (rule abs_triangle_ineq)
  also have "\<dots> = \<bar>q\<bar> * \<bar>b - h\<bar> + \<bar>a - w\<bar>" by (simp add: abs_mult abs_minus_commute)
  also have "\<dots> \<le> \<bar>q\<bar> * (h * dl + et) + (\<bar>w\<bar> * dl + et)"
    using a b by (intro add_mono mult_left_mono) simp_all
  finally have main: "\<bar>q - x\<bar> * h \<le> \<bar>q\<bar> * (h * dl + et) + (\<bar>w\<bar> * dl + et)" .
  have w_abs: "\<bar>w\<bar> = \<bar>x\<bar> * h" using hpos xh [symmetric] by (simp add: abs_mult)
  have f1: "et \<le> et * h" using h et mult_left_mono [of 1 h et] by simp
  have f2: "\<bar>q\<bar> * et \<le> \<bar>q\<bar> * et * h"
    using h et mult_left_mono [of 1 h "\<bar>q\<bar> * et"] by simp
  have "\<bar>q\<bar> * (h * dl + et) + (\<bar>w\<bar> * dl + et)
      = \<bar>q\<bar> * h * dl + \<bar>q\<bar> * et + \<bar>x\<bar> * h * dl + et"
    by (simp add: w_abs algebra_simps)
  also have "\<dots> \<le> \<bar>q\<bar> * h * dl + \<bar>q\<bar> * et * h + \<bar>x\<bar> * h * dl + et * h"
    using f1 f2 by linarith
  also have "\<dots> = (\<bar>x\<bar> * dl + et + (dl + et) * \<bar>q\<bar>) * h"
    by (simp add: algebra_simps)
  finally have "\<bar>q - x\<bar> * h \<le> (\<bar>x\<bar> * dl + et + (dl + et) * \<bar>q\<bar>) * h"
    using main by linarith
  then have "\<bar>q - x\<bar> \<le> \<bar>x\<bar> * dl + et + (dl + et) * \<bar>q\<bar>"
    using hpos by (simp add: mult_le_cancel_right)
  then show ?thesis by (simp add: q_def x_def)
qed


lemma pw:
  "(2::rat) ^ 48 = 281474976710656"
  "(2::rat) ^ 50 = 1125899906842624"
  "(2::rat) ^ 51 = 2251799813685248"
  "(2::rat) ^ 53 = 9007199254740992"
  "(2::rat) ^ 56 = 72057594037927936"
  "(2::rat) ^ 63 = 9223372036854775808"
  "(2::rat) ^ 65 = 36893488147419103232"
  "(2::rat) ^ 97 = 158456325028528675187087900672"
  "(2::rat) ^ 99 = 633825300114114700748351602688"
  "(2::rat) ^ 100 = 1267650600228229401496703205376"
  by simp_all

lemma int_conversion:
  fixes n :: int
  assumes "\<bar>n\<bar> \<le> 2 ^ 63"
  obtains a where "float64_of_int n = Fin a"
    and "\<bar>a - of_int n\<bar> \<le> \<bar>of_int n\<bar> * (1 / 2 ^ 53) + 1 / 2 ^ 100"
proof -
  have "\<bar>of_int n :: rat\<bar> = of_int \<bar>n\<bar>" by simp
  also have "\<dots> \<le> of_int (2 ^ 63)" using assms by (simp only: of_int_le_iff)
  finally have "\<bar>of_int n :: rat\<bar> \<le> 2 ^ 100" by simp
  from round64_finite [OF this] obtain a where a: "round64 (of_int n) = Fin a" ..
  from round64_error [OF a] have "\<bar>a - of_int n\<bar> \<le> \<bar>of_int n\<bar> * (1 / 2 ^ 53) + 1 / 2 ^ 100"
    by simp
  with a that show ?thesis by (simp add: float64_of_int_def)
qed

lemma ratio_error:
  fixes wd ht :: int
  assumes ht: "0 < ht" "ht < 2 ^ 63" and wd: "\<bar>wd\<bar> \<le> 2 ^ 63"
  obtains r where "fdiv (float64_of_int wd) (float64_of_int ht) = Fin r"
    and "\<bar>r - of_int wd / of_int ht\<bar> \<le> \<bar>of_int wd / of_int ht\<bar> / 2 ^ 50 + 1 / 2 ^ 97"
    and "\<bar>r\<bar> \<le> 2 ^ 65"
proof -
  define x :: rat where "x = of_int wd / of_int ht"
  have h1: "(1::rat) \<le> of_int ht" using ht by simp
  have xb: "\<bar>x\<bar> \<le> 2 ^ 63"
  proof -
    have "\<bar>x\<bar> = \<bar>of_int wd\<bar> / of_int ht" using ht by (simp add: x_def)
    also have "\<dots> \<le> \<bar>of_int wd\<bar> / 1" using h1 by (intro divide_left_mono) simp_all
    also have "\<dots> = of_int \<bar>wd\<bar>" by simp
    also have "\<dots> \<le> of_int (2 ^ 63)" using wd by (simp only: of_int_le_iff)
    finally show ?thesis by simp
  qed
  from wd obtain a where a: "float64_of_int wd = Fin a"
    and ae: "\<bar>a - of_int wd\<bar> \<le> \<bar>of_int wd\<bar> * (1 / 2 ^ 53) + 1 / 2 ^ 100"
    by (rule int_conversion)
  from ht have "\<bar>ht\<bar> \<le> 2 ^ 63" by simp
  then obtain b where b: "float64_of_int ht = Fin b"
    and be: "\<bar>b - of_int ht\<bar> \<le> \<bar>of_int ht\<bar> * (1 / 2 ^ 53) + 1 / 2 ^ 100"
    by (rule int_conversion)
  from be ht have be': "\<bar>b - of_int ht\<bar> \<le> of_int ht * (1 / 2 ^ 53) + 1 / 2 ^ 100"
    by simp
  from be' h1 have bpos: "0 < b" unfolding pw by linarith
  then have bnz: "b \<noteq> 0" by simp
  define q where "q = a / b"
  have qe: "\<bar>q - x\<bar> \<le> \<bar>x\<bar> * (1 / 2 ^ 53) + 1 / 2 ^ 100 + (1 / 2 ^ 53 + 1 / 2 ^ 100) * \<bar>q\<bar>"
    unfolding q_def x_def by (rule quotient_error [OF h1 _ _ bnz ae be']) simp_all
  have qe: "\<bar>q - x\<bar> \<le> \<bar>x\<bar> / 2 ^ 53 + 1 / 2 ^ 100 + \<bar>q\<bar> / 2 ^ 53 + \<bar>q\<bar> / 2 ^ 100"
    using qe by (simp add: algebra_simps)
  have qb: "\<bar>q\<bar> \<le> 2 * \<bar>x\<bar> + 1 / 2 ^ 99" using qe unfolding pw by linarith
  with xb have "\<bar>q\<bar> \<le> 2 ^ 100" unfolding pw by linarith
  from round64_finite [OF this] obtain r where r: "round64 q = Fin r" ..
  from round64_error [OF r] have re: "\<bar>r - q\<bar> \<le> \<bar>q\<bar> / 2 ^ 53 + 1 / 2 ^ 100" .
  have "fdiv (float64_of_int wd) (float64_of_int ht) = Fin r"
    using a b bnz r by (simp add: q_def)
  moreover have "\<bar>r - x\<bar> \<le> \<bar>x\<bar> / 2 ^ 50 + 1 / 2 ^ 97"
    using qe qb re unfolding pw by linarith
  moreover have "\<bar>r\<bar> \<le> 2 ^ 65"
    using qe qb re xb unfolding pw by linarith
  ultimately show ?thesis using that by (simp add: x_def)
qed

text \<open>
  The tolerance test against a constant \<open>c\<close> that is the rounding of \<open>target\<close>, with the
  rounded tolerance \<open>t\<close>: it succeeds when the exact ratio is within
  \<open>1 / 10 - 1 / 2 ^ 48\<close> of the target, and only when it is within \<open>1 / 10 + 1 / 2 ^ 48\<close>.
\<close>

lemma tolerance_test:
  fixes r c t :: rat
  assumes "\<bar>r\<bar> \<le> 2 ^ 65" "\<bar>c\<bar> \<le> 3"
  obtains d where "flt (fabs (fsub (Fin r) (Fin c))) (Fin t) = (\<bar>d\<bar> < t)"
    and "\<bar>d - (r - c)\<bar> \<le> \<bar>r - c\<bar> / 2 ^ 53 + 1 / 2 ^ 100"
proof -
  have "\<bar>r - c\<bar> \<le> 2 ^ 100" using assms unfolding pw by linarith
  from round64_finite [OF this] obtain d where d: "round64 (r - c) = Fin d" ..
  from round64_error [OF d] have "\<bar>d - (r - c)\<bar> \<le> \<bar>r - c\<bar> / 2 ^ 53 + 1 / 2 ^ 100" .
  moreover have "flt (fabs (fsub (Fin r) (Fin c))) (Fin t) = (\<bar>d\<bar> < t)"
    by (simp add: d)
  ultimately show ?thesis using that by blast
qed

lemma tolerance_band:
  fixes wd ht :: int and target c t :: rat
  assumes ht: "0 < ht" "ht < 2 ^ 63" and wd: "\<bar>wd\<bar> \<le> 2 ^ 63"
    and c: "\<bar>c - target\<bar> \<le> 1 / 2 ^ 53" and target: "0 \<le> target" "target \<le> 2"
    and t: "1 / 10 \<le> t" "t \<le> 1 / 10 + 1 / 2 ^ 56"
  shows "\<bar>of_int wd / of_int ht - target\<bar> \<le> 1 / 10 - 1 / 2 ^ 48 \<Longrightarrow>
      flt (fabs (fsub (fdiv (float64_of_int wd) (float64_of_int ht)) (Fin c))) (Fin t)"
    and "flt (fabs (fsub (fdiv (float64_of_int wd) (float64_of_int ht)) (Fin c))) (Fin t) \<Longrightarrow>
      \<bar>of_int wd / of_int ht - target\<bar> \<le> 1 / 10 + 1 / 2 ^ 48"
proof -
  define x :: rat where "x = of_int wd / of_int ht"
  from ht wd obtain r where r: "fdiv (float64_of_int wd) (float64_of_int ht) = Fin r"
    and rx: "\<bar>r - x\<bar> \<le> \<bar>x\<bar> / 2 ^ 50 + 1 / 2 ^ 97"
    and rb: "\<bar>r\<bar> \<le> 2 ^ 65"
    unfolding x_def by (rule ratio_error)
  have cb: "\<bar>c\<bar> \<le> 3" using c target unfolding pw by linarith
  from rb cb obtain d where test: "flt (fabs (fsub (Fin r) (Fin c))) (Fin t) = (\<bar>d\<bar> < t)"
    and dr: "\<bar>d - (r - c)\<bar> \<le> \<bar>r - c\<bar> / 2 ^ 53 + 1 / 2 ^ 100"
    by (rule tolerance_test)
  define X where "X = \<bar>x\<bar>"
  define E where "E = \<bar>r - c\<bar>"
  have rx1: "\<bar>r - x\<bar> \<le> X / 2 ^ 50 + 1 / 2 ^ 97"
    using rx by (simp add: X_def)
  have dr1: "\<bar>d - (r - c)\<bar> \<le> E / 2 ^ 53 + 1 / 2 ^ 100"
    using dr by (simp add: E_def)
  have tri: "\<bar>d\<bar> \<le> E + \<bar>d - (r - c)\<bar>" "E \<le> \<bar>d\<bar> + \<bar>d - (r - c)\<bar>"
    "\<bar>r\<bar> \<le> E + \<bar>c\<bar>" "X \<le> \<bar>r\<bar> + \<bar>r - x\<bar>" "X \<le> \<bar>x - target\<bar> + target"
    "E \<le> \<bar>r - x\<bar> + \<bar>x - target\<bar> + \<bar>c - target\<bar>"
    "\<bar>x - target\<bar> \<le> \<bar>r - x\<bar> + E + \<bar>c - target\<bar>"
    using target unfolding X_def E_def by linarith+
  {
    assume near: "\<bar>x - target\<bar> \<le> 1 / 10 - 1 / 2 ^ 48"
    have xb: "X \<le> 3" using near target tri(5) unfolding pw by linarith
    have rx2: "\<bar>r - x\<bar> \<le> 3 / 2 ^ 50 + 1 / 2 ^ 97" using rx1 xb unfolding pw by linarith
    have rc: "E \<le> 1 / 10 - 1 / 2 ^ 51" using rx2 near c tri(6) unfolding pw by linarith
    have "\<bar>d\<bar> < 1 / 10" using rc dr1 tri(1) unfolding pw by linarith
    with t have "\<bar>d\<bar> < t" by linarith
    with test r have "flt (fabs (fsub (fdiv (float64_of_int wd) (float64_of_int ht)) (Fin c))) (Fin t)"
      by simp
  }
  then show "\<bar>of_int wd / of_int ht - target\<bar> \<le> 1 / 10 - 1 / 2 ^ 48 \<Longrightarrow>
      flt (fabs (fsub (fdiv (float64_of_int wd) (float64_of_int ht)) (Fin c))) (Fin t)"
    by (simp add: x_def)
  {
    assume "flt (fabs (fsub (fdiv (float64_of_int wd) (float64_of_int ht)) (Fin c))) (Fin t)"
    with test r have dt: "\<bar>d\<bar> < t" by simp
    have rc0: "E \<le> 1 / 5" using dt dr1 t tri(2) unfolding pw by linarith
    have rc: "E \<le> t + 1 / 2 ^ 53" using dt dr1 rc0 tri(2) unfolding pw by linarith
    have rb': "\<bar>r\<bar> \<le> 5 / 2" using rc0 cb c target tri(3) unfolding pw by linarith
    have xb: "X \<le> 3" using rb' rx1 tri(4) unfolding pw by linarith
    have rx2: "\<bar>r - x\<bar> \<le> 3 / 2 ^ 50 + 1 / 2 ^ 97" using rx1 xb unfolding pw by linarith
    have "\<bar>x - target\<bar> \<le> 1 / 10 + 1 / 2 ^ 48" using rx2 rc c t tri(7) unfolding pw by linarith
  }
  then show "flt (fabs (fsub (fdiv (float64_of_int wd) (float64_of_int ht)) (Fin c))) (Fin t) \<Longrightarrow>
      \<bar>of_int wd / of_int ht - target\<bar> \<le> 1 / 10 + 1 / 2 ^ 48"
    by (simp add: x_def)
qed

lemma getVideoAspectRatio_streams:
  assumes "ffprobe ev filePath = Some out"
    and "json_Unmarshal ev out = Some ((width, height) # rest)"
  shows "getVideoAspectRatio ev filePath =
    Inr (if flt (fabs (fsub (fdiv (float64_of_int width) (float64_of_int height))
                 (Fin (2001599834386887 / 1125899906842624))))
               (Fin (3602879701896397 / 36028797018963968)) then ''16:9''
         else if flt (fabs (fsub (fdiv (float64_of_int width) (float64_of_int height))
                 (Fin (9 / 16))))
               (Fin (3602879701896397 / 36028797018963968)) then ''9:16''
         else ''other'')"
  using assms
  by (simp add: getVideoAspectRatio_def round64_16_9 round64_9_16 round64_1_10)

text \<open>
  C2, as the code has it: the ratio, the differences and the comparisons are computed in
  \<^verbatim>\<open>float64\<close>, so the classification follows the exact ratio \<open>w / h\<close> up to a margin of
  \<open>1 / 2 ^ 48\<close> at the tolerance. For every width and height \<open>h > 0\<close> of 64 bits: the
  classification is landscape when \<open>\<bar>w / h - 16 / 9\<bar> \<le> 1 / 10 - 1 / 2 ^ 48\<close> and only when
  \<open>\<bar>w / h - 16 / 9\<bar> \<le> 1 / 10 + 1 / 2 ^ 48\<close>; it is portrait when
  \<open>\<bar>w / h - 9 / 16\<bar> \<le> 1 / 10 - 1 / 2 ^ 48\<close> and only when
  \<open>\<bar>w / h - 9 / 16\<bar> \<le> 1 / 10 + 1 / 2 ^ 48\<close>; it is other in every other case.
\<close>

theorem aspect_classification:
  assumes probe: "ffprobe ev filePath = Some out"
    "json_Unmarshal ev out = Some ((width, height) # rest)"
    and height: "0 < height" "height < 2 ^ 63"
    and width: "- (2 ^ 63) \<le> width" "width < 2 ^ 63"
  shows "\<exists>aspectRatio. getVideoAspectRatio ev filePath = Inr aspectRatio
    \<and> (\<bar>of_int width / of_int height - 16 / 9 :: rat\<bar> \<le> 1 / 10 - 1 / 2 ^ 48
         \<longrightarrow> aspectString aspectRatio = ''landscape'')
    \<and> (aspectString aspectRatio = ''landscape''
         \<longrightarrow> \<bar>of_int width / of_int height - 16 / 9 :: rat\<bar> \<le> 1 / 10 + 1 / 2 ^ 48)
    \<and> (\<bar>of_int width / of_int height - 9 / 16 :: rat\<bar> \<le> 1 / 10 - 1 / 2 ^ 48
         \<longrightarrow> aspectString aspectRatio = ''portrait'')
    \<and> (aspectString aspectRatio = ''portrait''
         \<longrightarrow> \<bar>of_int width / of_int height - 9 / 16 :: rat\<bar> \<le> 1 / 10 + 1 / 2 ^ 48)
    \<and> aspectString aspectRatio \<in> {''landscape'', ''portrait'', ''other''}"
proof -
  let ?x = "of_int width / of_int height :: rat"
  let ?ratio = "fdiv (float64_of_int width) (float64_of_int height)"
  let ?t = "3602879701896397 / 36028797018963968 :: rat"
  let ?L = "flt (fabs (fsub ?ratio (Fin (2001599834386887 / 1125899906842624)))) (Fin ?t)"
  let ?P = "flt (fabs (fsub ?ratio (Fin (9 / 16)))) (Fin ?t)"
  have w: "\<bar>width\<bar> \<le> 2 ^ 63" using width by simp
  have t: "1 / 10 \<le> ?t" "?t \<le> 1 / 10 + 1 / 2 ^ 56" by simp_all
  have L1: "\<bar>?x - 16 / 9\<bar> \<le> 1 / 10 - 1 / 2 ^ 48 \<Longrightarrow> ?L"
    and L2: "?L \<Longrightarrow> \<bar>?x - 16 / 9\<bar> \<le> 1 / 10 + 1 / 2 ^ 48"
    using tolerance_band [OF height w _ _ _ t, of "2001599834386887 / 1125899906842624" "16 / 9"]
    by simp_all
  have P1: "\<bar>?x - 9 / 16\<bar> \<le> 1 / 10 - 1 / 2 ^ 48 \<Longrightarrow> ?P"
    and P2: "?P \<Longrightarrow> \<bar>?x - 9 / 16\<bar> \<le> 1 / 10 + 1 / 2 ^ 48"
    using tolerance_band [OF height w _ _ _ t, of "9 / 16" "9 / 16"]
    by simp_all
  have excl: "\<bar>?x - 9 / 16\<bar> \<le> 1 / 10 - 1 / 2 ^ 48 \<Longrightarrow> \<not> ?L"
  proof
    assume a: "\<bar>?x - 9 / 16\<bar> \<le> 1 / 10 - 1 / 2 ^ 48" and "?L"
    from L2 [OF \<open>?L\<close>] a show False unfolding pw by linarith
  qed
  let ?ar = "if ?L then ''16:9'' else if ?P then ''9:16'' else ''other''"
  have g: "getVideoAspectRatio ev filePath = Inr ?ar"
    by (rule getVideoAspectRatio_streams [OF probe])
  have land: "aspectString ?ar = ''landscape'' \<longleftrightarrow> ?L"
    and port: "aspectString ?ar = ''portrait'' \<longleftrightarrow> \<not> ?L \<and> ?P"
    by (simp_all add: aspectString_def)
  show ?thesis
  proof (intro exI [of _ ?ar] conjI impI)
    show "getVideoAspectRatio ev filePath = Inr ?ar" by (rule g)
    show "aspectString ?ar = ''landscape''" if "\<bar>?x - 16 / 9\<bar> \<le> 1 / 10 - 1 / 2 ^ 48"
      using L1 [OF that] land by simp
    show "\<bar>?x - 16 / 9\<bar> \<le> 1 / 10 + 1 / 2 ^ 48" if "aspectString ?ar = ''landscape''"
      using that land L2 by simp
    show "aspectString ?ar = ''portrait''" if "\<bar>?x - 9 / 16\<bar> \<le> 1 / 10 - 1 / 2 ^ 48"
      using P1 [OF that] excl [OF that] port by simp
    show "\<bar>?x - 9 / 16\<bar> \<le> 1 / 10 + 1 / 2 ^ 48" if "aspectString ?ar = ''portrait''"
      using that port P2 by simp
    show "aspectString ?ar \<in> {''landscape'', ''portrait'', ''other''}"
      by (rule aspectString_in)
  qed
qed

text \<open>
  The theorem at 1920 by 1080 (landscape), at 1080 by 1920 (portrait) and at 1000 by 1000
  (other).
\<close>

theorem aspect_classification_witness:
  "(\<exists>aspectRatio. getVideoAspectRatio (sample_env\<lparr>json_Unmarshal := \<lambda>_. Some [(1920, 1080)]\<rparr>)
        ''/tmp/a.mp4'' = Inr aspectRatio \<and> aspectString aspectRatio = ''landscape'')
   \<and> (\<exists>aspectRatio. getVideoAspectRatio (sample_env\<lparr>json_Unmarshal := \<lambda>_. Some [(1080, 1920)]\<rparr>)
        ''/tmp/a.mp4'' = Inr aspectRatio \<and> aspectString aspectRatio = ''portrait'')
   \<and> (\<exists>aspectRatio. getVideoAspectRatio (sample_env\<lparr>json_Unmarshal := \<lambda>_. Some [(1000, 1000)]\<rparr>)
        ''/tmp/a.mp4'' = Inr aspectRatio \<and> aspectString aspectRatio = ''other'')"
proof -
  let ?ev = "\<lambda>wd ht. sample_env\<lparr>json_Unmarshal := \<lambda>_. Some [(wd, ht)]\<rparr>"
  have p: "\<And>wd ht. ffprobe (?ev wd ht) ''/tmp/a.mp4'' = Some ''{}''"
    "\<And>wd ht. json_Unmarshal (?ev wd ht) ''{}'' = Some ((wd, ht) # [])"
    by (simp_all add: sample_env_def)
  have h: "0 < (1080::int)" "(1080::int) < 2 ^ 63" "- (2 ^ 63) \<le> (1920::int)" "(1920::int) < 2 ^ 63"
    "0 < (1920::int)" "(1920::int) < 2 ^ 63" "- (2 ^ 63) \<le> (1080::int)" "(1080::int) < 2 ^ 63"
    "0 < (1000::int)" "(1000::int) < 2 ^ 63" "- (2 ^ 63) \<le> (1000::int)"
    by simp_all
  from aspect_classification [OF p h(1,2,3,4)] obtain ar1 where
    g1: "getVideoAspectRatio (?ev 1920 1080) ''/tmp/a.mp4'' = Inr ar1"
    and l1: "\<bar>of_int 1920 / of_int 1080 - 16 / 9 :: rat\<bar> \<le> 1 / 10 - 1 / 2 ^ 48
         \<longrightarrow> aspectString ar1 = ''landscape''"
    by blast
  have "\<bar>of_int 1920 / of_int 1080 - 16 / 9 :: rat\<bar> \<le> 1 / 10 - 1 / 2 ^ 48" by simp
  with l1 have a1: "aspectString ar1 = ''landscape''" by blast
  from aspect_classification [OF p h(5,6,7,8)] obtain ar2 where
    g2: "getVideoAspectRatio (?ev 1080 1920) ''/tmp/a.mp4'' = Inr ar2"
    and l2: "\<bar>of_int 1080 / of_int 1920 - 9 / 16 :: rat\<bar> \<le> 1 / 10 - 1 / 2 ^ 48
         \<longrightarrow> aspectString ar2 = ''portrait''"
    by blast
  have "\<bar>of_int 1080 / of_int 1920 - 9 / 16 :: rat\<bar> \<le> 1 / 10 - 1 / 2 ^ 48" by simp
  with l2 have a2: "aspectString ar2 = ''portrait''" by blast
  from aspect_classification [OF p h(9,10,11,10)] obtain ar3 where
    g3: "getVideoAspectRatio (?ev 1000 1000) ''/tmp/a.mp4'' = Inr ar3"
    and l3: "aspectString ar3 = ''landscape''
         \<longrightarrow> \<bar>of_int 1000 / of_int 1000 - 16 / 9 :: rat\<bar> \<le> 1 / 10 + 1 / 2 ^ 48"
    and l4: "aspectString ar3 = ''portrait''
         \<longrightarrow> \<bar>of_int 1000 / of_int 1000 - 9 / 16 :: rat\<bar> \<le> 1 / 10 + 1 / 2 ^ 48"
    and l5: "aspectString ar3 \<in> {''landscape'', ''portrait'', ''other''}"
    by blast
  have "\<not> \<bar>of_int 1000 / of_int 1000 - 16 / 9 :: rat\<bar> \<le> 1 / 10 + 1 / 2 ^ 48"
    "\<not> \<bar>of_int 1000 / of_int 1000 - 9 / 16 :: rat\<bar> \<le> 1 / 10 + 1 / 2 ^ 48"
    by simp_all
  with l3 l4 have "aspectString ar3 \<noteq> ''landscape''" "aspectString ar3 \<noteq> ''portrait''"
    by blast+
  with l5 have a3: "aspectString ar3 = ''other''" by blast
  from g1 a1 g2 a2 g3 a3 show ?thesis by blast
qed

lemma ratio_151_90:
  "fdiv (float64_of_int 151) (float64_of_int 90) = Fin (7556039374810499 / 4503599627370496)"
  by code_simp

lemma ratio_169_90:
  "fdiv (float64_of_int 169) (float64_of_int 90) = Fin (4228379650142299 / 2251799813685248)"
  by code_simp

lemma diffs:
  "round64 (- (450359962737049 / 4503599627370496))
     = Fin (- (450359962737049 / 4503599627370496))"
  "round64 (225179981368525 / 2251799813685248)
     = Fin (225179981368525 / 2251799813685248)"
  "round64 (2961742254944347 / 2251799813685248)
     = Fin (2961742254944347 / 2251799813685248)"
  by code_simp+

text \<open>
  C2 as stated fails at the tolerance itself: 151 / 90 and 169 / 90 are both at the exact
  distance 1 / 10 from 16 / 9, and the code classifies the first as landscape and the
  second as other. No reading of "within the tolerance", strict or not, gives both.
\<close>

theorem tolerance_boundary_asymmetric:
  "getVideoAspectRatio (sample_env\<lparr>json_Unmarshal := \<lambda>_. Some [(151, 90)]\<rparr>) ''/tmp/a.mp4'' = Inr ''16:9''
   \<and> aspectString ''16:9'' = ''landscape''
   \<and> \<bar>151 / 90 - 16 / 9 :: rat\<bar> = 1 / 10
   \<and> getVideoAspectRatio (sample_env\<lparr>json_Unmarshal := \<lambda>_. Some [(169, 90)]\<rparr>) ''/tmp/a.mp4'' = Inr ''other''
   \<and> aspectString ''other'' = ''other''
   \<and> \<bar>169 / 90 - 16 / 9 :: rat\<bar> = 1 / 10"
  by (simp add: getVideoAspectRatio_def sample_env_def aspectString_def
      ratio_151_90 ratio_169_90 round64_16_9 round64_9_16 round64_1_10 diffs)

end
